theory Spec2Isabelle
  imports Main "HOL-Library.Monad_Syntax"
begin

section \<open>Code points and strings\<close>

text \<open>
  A Go \<open>rune\<close> is a signed 32-bit code point; the engine only compares runes and adds
  small constants to them, so a rune is an \<open>int\<close> here.  A Go string is modelled by the
  sequence of code points that \<open>[]rune(s)\<close> (and \<open>utf8.DecodeRuneInString\<close>, one rune
  at a time) reads from it, for a string that is valid UTF-8.  Positions of the parser
  therefore count code points where the Go code counts bytes; the parser uses its
  position only to walk the text and to cut substrings out of it.
  \<open>runes\<close> reads an ASCII literal of this theory as such a sequence.
\<close>

type_synonym rune = int

definition runes :: "string \<Rightarrow> rune list" where
  "runes s = map of_char s"

abbreviation (input) ru :: "char \<Rightarrow> rune" where
  "ru c \<equiv> of_char c"

section \<open>ast.go: the syntax tree\<close>

datatype NodeType =
    NodeUnknown | NodeChar | NodeConcat | NodeAlt | NodeStar | NodePlus | NodeQuest
  | NodeRepeat | NodeCapture | NodeGroup | NodeBackref | NodeAnyChar | NodeCharClass
  | NodeBeginLine | NodeEndLine | NodeBeginText | NodeEndText | NodeWordBoundary
  | NodeNonWordBoundary

datatype RepeatType = RepeatGreedy | RepeatNonGreedy

datatype CharClassType = ClassCustom | ClassDigit | ClassWord | ClassSpace | ClassUnicode

record runeRange =
  rr_min :: rune
  rr_max :: rune

text \<open>
  The node structs, one constructor each, fields in the order of the Go declarations:
  \<open>RepeatNode node min max repeatType possessive\<close>, \<open>CaptureNode index name node\<close>,
  \<open>BackrefNode index name\<close>, \<open>AnyCharNode dotMatchesNewline\<close>,
  \<open>CharClassNode classType negate ranges unicodeKey\<close>, \<open>BoundaryNode nodeType\<close>.
\<close>

datatype Node =
    CharNode rune
  | ConcatNode "Node list"
  | AltNode Node Node
  | RepeatNode Node int int RepeatType bool
  | CaptureNode int "rune list" Node
  | GroupNode Node
  | BackrefNode int "rune list"
  | AnyCharNode bool
  | CharClassNode CharClassType bool "runeRange list" "rune list"
  | BoundaryNode NodeType

fun Node_Type :: "Node \<Rightarrow> NodeType" where
  "Node_Type (CharNode r) = NodeChar"
| "Node_Type (ConcatNode ns) = NodeConcat"
| "Node_Type (AltNode l r) = NodeAlt"
| "Node_Type (RepeatNode n mn mx rt ps) =
     (if mn = 0 \<and> mx = -1 then NodeStar
      else if mn = 1 \<and> mx = -1 then NodePlus
      else if mn = 0 \<and> mx = 1 then NodeQuest
      else NodeRepeat)"
| "Node_Type (CaptureNode i nm n) = NodeCapture"
| "Node_Type (GroupNode n) = NodeGroup"
| "Node_Type (BackrefNode i nm) = NodeBackref"
| "Node_Type (AnyCharNode d) = NodeAnyChar"
| "Node_Type (CharClassNode ct ng rs k) = NodeCharClass"
| "Node_Type (BoundaryNode t) = t"

section \<open>Errors\<close>

text \<open>
  Every \<open>fmt.Errorf\<close> of the parser and of the compiler is a constructor, with the
  values its message is formatted from.  \<open>PanicIndex\<close> is a Go run-time panic on an
  index out of range.
\<close>

datatype error =
    ErrTrailingInput rune
  | ErrBadRepeatOp rune
  | ErrMissingBrace
  | ErrNumberExpected
  | ErrBadNumber "rune list"
  | ErrUnexpectedEnd
  | ErrUnexpectedChar rune
  | ErrUnmatchedCloseParen
  | ErrIncompleteGroup
  | ErrMissingCloseParen
  | ErrUnknownGroup rune
  | ErrBadNamedCapture
  | ErrMissingCloseAngle
  | ErrEmptyName
  | ErrDuplicateName "rune list"
  | ErrBadRange rune rune
  | ErrMissingCloseBracket
  | ErrUnterminatedEscape
  | ErrNoSuchGroup int
  | ErrBadUnicodeProperty
  | ErrBadNamedBackref
  | ErrNoSuchName "rune list"
  | ErrUnknownRepeat NodeType
  | ErrUnknownBoundary NodeType
  | PanicIndex

section \<open>parser.go\<close>

record regexpFlags =
  rf_caseInsensitive :: bool
  rf_multiline :: bool
  rf_dotMatchesNL :: bool
  rf_ungreedy :: bool

text \<open>
  The field \<open>width\<close> of the Go parser is written by \<open>next\<close> and never read; it is
  left out.
\<close>

record Parser =
  p_input :: "rune list"
  p_pos :: nat
  p_captures :: int
  p_capNames :: "rune list \<rightharpoonup> int"
  p_subexpNames :: "rune list list"
  p_flags :: regexpFlags

type_synonym 'a pres = "(error + 'a) \<times> Parser"

definition noFlags :: regexpFlags where
  "noFlags = \<lparr>rf_caseInsensitive = False, rf_multiline = False,
              rf_dotMatchesNL = False, rf_ungreedy = False\<rparr>"

definition newParser :: "rune list \<Rightarrow> Parser" where
  "newParser inp =
     \<lparr>p_input = inp, p_pos = 0, p_captures = 0, p_capNames = Map.empty,
      p_subexpNames = [[]], p_flags = noFlags\<rparr>"

definition peek :: "Parser \<Rightarrow> rune" where
  "peek p = (if p_pos p \<ge> length (p_input p) then 0 else p_input p ! p_pos p)"

definition next' :: "Parser \<Rightarrow> rune \<times> Parser" where
  "next' p =
     (if p_pos p \<ge> length (p_input p) then (0, p)
      else (p_input p ! p_pos p, p\<lparr>p_pos := p_pos p + 1\<rparr>))"

definition isDigit :: "rune \<Rightarrow> bool" where
  "isDigit r = (ru CHR ''0'' \<le> r \<and> r \<le> ru CHR ''9'')"


subsection \<open>Scanning loops\<close>

text \<open>
  \<open>for p.peek() != stop && p.peek() != 0 { p.next() }\<close> (in \<open>parseEscape\<close>), which is
  also the loop of \<open>parseNamedCapture\<close> up to its exit test; and
  \<open>for isDigit(p.peek()) { p.next() }\<close> of \<open>parseNumber\<close>.
\<close>

function skipTo :: "rune \<Rightarrow> Parser \<Rightarrow> Parser" where
  "skipTo stop p =
     (if peek p \<noteq> stop \<and> peek p \<noteq> 0 then skipTo stop (snd (next' p)) else p)"
  by pat_completeness auto
termination
  by (relation "measure (\<lambda>(stop, p). length (p_input p) - p_pos p)")
     (auto simp: peek_def next'_def split: if_splits)

declare skipTo.simps [simp del]

function skipDigits :: "Parser \<Rightarrow> Parser" where
  "skipDigits p = (if isDigit (peek p) then skipDigits (snd (next' p)) else p)"
  by pat_completeness auto
termination
  by (relation "measure (\<lambda>p. length (p_input p) - p_pos p)")
     (auto simp: peek_def next'_def isDigit_def split: if_splits)

declare skipDigits.simps [simp del]

text \<open>\<open>p.input[start:p.pos]\<close>.\<close>

definition slice :: "'a list \<Rightarrow> nat \<Rightarrow> nat \<Rightarrow> 'a list" where
  "slice xs a b = take (b - a) (drop a xs)"

text \<open>
  \<open>strconv.Atoi\<close> on a non-empty run of decimal digits: the value, or an error when it
  does not fit a 64-bit \<open>int\<close>.
\<close>

definition digitsValue :: "rune list \<Rightarrow> int" where
  "digitsValue ds = foldl (\<lambda>a d. 10 * a + (d - ru CHR ''0'')) 0 ds"

definition parseNumber :: "Parser \<Rightarrow> int pres" where
  "parseNumber p =
     (let start = p_pos p; p1 = skipDigits p in
      if start = p_pos p1 then (Inl ErrNumberExpected, p1)
      else let ds = slice (p_input p1) start (p_pos p1) in
        if digitsValue ds > 2 ^ 63 - 1 then (Inl (ErrBadNumber ds), p1)
        else (Inr (digitsValue ds), p1))"

subsection \<open>Quantifiers\<close>

definition flipGreedy :: "regexpFlags \<Rightarrow> RepeatType \<Rightarrow> RepeatType" where
  "flipGreedy fl t =
     (if rf_ungreedy fl then (if t = RepeatGreedy then RepeatNonGreedy else RepeatGreedy)
      else t)"

definition parseRepeat :: "Node \<Rightarrow> Parser \<Rightarrow> Node pres" where
  "parseRepeat node p =
     (let (r, p1) = next' p in
      if r = ru CHR ''*'' \<or> r = ru CHR ''+'' \<or> r = ru CHR ''?'' then
        (let mn = (if r = ru CHR ''+'' then 1 else 0);
             mx = (if r = ru CHR ''?'' then 1 else -1) in
         if peek p1 = ru CHR ''?'' then
           (let p2 = snd (next' p1) in
            (Inr (RepeatNode node mn mx (flipGreedy (p_flags p2) RepeatNonGreedy) False), p2))
         else if peek p1 = ru CHR ''+'' then
           (let p2 = snd (next' p1) in
            (Inr (RepeatNode node mn mx RepeatGreedy True), p2))
         else (Inr (RepeatNode node mn mx (flipGreedy (p_flags p1) RepeatGreedy) False), p1))
      else (Inl (ErrBadRepeatOp r), p1))"

definition parseRepeatSuffix :: "Node \<Rightarrow> int \<Rightarrow> int \<Rightarrow> Parser \<Rightarrow> Node pres" where
  "parseRepeatSuffix node mn mx p =
     (if peek p \<noteq> ru CHR ''}'' then (Inl ErrMissingBrace, p)
      else let p1 = snd (next' p) in
        if peek p1 = ru CHR ''?'' then
          (let p2 = snd (next' p1) in
           (Inr (RepeatNode node mn mx (flipGreedy (p_flags p2) RepeatNonGreedy) False), p2))
        else if peek p1 = ru CHR ''+'' then
          (let p2 = snd (next' p1) in
           (Inr (RepeatNode node mn mx (flipGreedy (p_flags p2) RepeatGreedy) True), p2))
        else (Inr (RepeatNode node mn mx (flipGreedy (p_flags p1) RepeatGreedy) False), p1))"

text \<open>
  \<open>parseRepeatRange\<close>: the bounds, then (\<open>parseRepeatSuffix\<close>) the closing brace and
  the greediness suffix.
\<close>

definition parseRepeatRange :: "Node \<Rightarrow> Parser \<Rightarrow> Node pres" where
  "parseRepeatRange node p =
     (let p1 = snd (next' p) in
      case parseNumber p1 of
        (Inl e, p2) \<Rightarrow> (Inl e, p2)
      | (Inr mn, p2) \<Rightarrow>
          if peek p2 = ru CHR '','' then
            (let p3 = snd (next' p2) in
             if peek p3 = ru CHR ''}'' then parseRepeatSuffix node mn (-1) p3
             else (case parseNumber p3 of
                     (Inl e, p4) \<Rightarrow> (Inl e, p4)
                   | (Inr mx, p4) \<Rightarrow> parseRepeatSuffix node mn mx p4))
          else parseRepeatSuffix node mn mn p2)"

subsection \<open>Flag modifiers\<close>

function parseModifiersOff :: "regexpFlags \<Rightarrow> Parser \<Rightarrow> regexpFlags \<times> Parser" where
  "parseModifiersOff offFlags p =
     (if peek p = ru CHR ''i'' then
        parseModifiersOff (offFlags\<lparr>rf_caseInsensitive := True\<rparr>) (snd (next' p))
      else if peek p = ru CHR ''m'' then
        parseModifiersOff (offFlags\<lparr>rf_multiline := True\<rparr>) (snd (next' p))
      else if peek p = ru CHR ''s'' then
        parseModifiersOff (offFlags\<lparr>rf_dotMatchesNL := True\<rparr>) (snd (next' p))
      else if peek p = ru CHR ''U'' then
        parseModifiersOff (offFlags\<lparr>rf_ungreedy := True\<rparr>) (snd (next' p))
      else (offFlags, p))"
  by pat_completeness auto
termination
  by (relation "measure (\<lambda>(f, p). length (p_input p) - p_pos p)")
     (auto simp: peek_def next'_def split: if_splits)

declare parseModifiersOff.simps [simp del]

function parseModifiersOn :: "regexpFlags \<Rightarrow> Parser \<Rightarrow> (regexpFlags \<times> regexpFlags) \<times> Parser" where
  "parseModifiersOn onFlags p =
     (if peek p = ru CHR ''i'' then
        parseModifiersOn (onFlags\<lparr>rf_caseInsensitive := True\<rparr>) (snd (next' p))
      else if peek p = ru CHR ''m'' then
        parseModifiersOn (onFlags\<lparr>rf_multiline := True\<rparr>) (snd (next' p))
      else if peek p = ru CHR ''s'' then
        parseModifiersOn (onFlags\<lparr>rf_dotMatchesNL := True\<rparr>) (snd (next' p))
      else if peek p = ru CHR ''U'' then
        parseModifiersOn (onFlags\<lparr>rf_ungreedy := True\<rparr>) (snd (next' p))
      else if peek p = ru CHR ''-'' then
        (let (offFlags, p1) = parseModifiersOff noFlags (snd (next' p)) in
         ((onFlags, offFlags), p1))
      else ((onFlags, noFlags), p))"
  by pat_completeness auto
termination
  by (relation "measure (\<lambda>(f, p). length (p_input p) - p_pos p)")
     (auto simp: peek_def next'_def split: if_splits)

declare parseModifiersOn.simps [simp del]

definition parseModifiers :: "Parser \<Rightarrow> (regexpFlags \<times> regexpFlags) \<times> Parser" where
  "parseModifiers p = parseModifiersOn noFlags p"

text \<open>The flag assignments at the head of \<open>parseFlags\<close>.\<close>

definition applyModifiers :: "regexpFlags \<Rightarrow> regexpFlags \<Rightarrow> regexpFlags \<Rightarrow> regexpFlags" where
  "applyModifiers onFlags offFlags fl =
     \<lparr>rf_caseInsensitive =
        (if rf_caseInsensitive offFlags then False
         else if rf_caseInsensitive onFlags then True else rf_caseInsensitive fl),
      rf_multiline =
        (if rf_multiline offFlags then False
         else if rf_multiline onFlags then True else rf_multiline fl),
      rf_dotMatchesNL =
        (if rf_dotMatchesNL offFlags then False
         else if rf_dotMatchesNL onFlags then True else rf_dotMatchesNL fl),
      rf_ungreedy =
        (if rf_ungreedy offFlags then False
         else if rf_ungreedy onFlags then True else rf_ungreedy fl)\<rparr>"


subsection \<open>Character classes\<close>

definition parseClassAtom :: "Parser \<Rightarrow> rune pres" where
  "parseClassAtom p =
     (let r = peek p in
      if r = 0 then (Inl ErrUnexpectedEnd, p)
      else if r = ru CHR 0x5C then
        (let p1 = snd (next' p); esc = peek p1 in
         if esc = 0 then (Inl ErrUnexpectedEnd, p1)
         else let p2 = snd (next' p1) in
           if esc = ru CHR ''n'' then (Inr 0x0A, p2)
           else if esc = ru CHR ''r'' then (Inr 0x0D, p2)
           else if esc = ru CHR ''t'' then (Inr 0x09, p2)
           else if esc = ru CHR ''f'' then (Inr 0x0C, p2)
           else if esc = ru CHR ''v'' then (Inr 0x0B, p2)
           else (Inr esc, p2))
      else (Inr r, snd (next' p)))"

definition mkRange :: "rune \<Rightarrow> rune \<Rightarrow> runeRange" where
  "mkRange a b = \<lparr>rr_min = a, rr_max = b\<rparr>"

text \<open>
  The loop of \<open>parseCharClass\<close>, with the ranges collected so far.  An iteration that
  does not fail has read at least one rune, which is the termination argument.
\<close>

function parseCharClassLoop :: "runeRange list \<Rightarrow> Parser \<Rightarrow> (runeRange list) pres" where
  "parseCharClassLoop ranges p =
     (if peek p \<noteq> ru CHR '']'' \<and> peek p \<noteq> 0 then
        (case parseClassAtom p of
           (Inl e, p1) \<Rightarrow> (Inl e, p1)
         | (Inr mn, p1) \<Rightarrow>
             if peek p1 = ru CHR ''-'' then
               (let p2 = snd (next' p1) in
                if peek p2 = ru CHR '']'' then
                  parseCharClassLoop
                    (ranges @ [mkRange mn mn, mkRange (ru CHR ''-'') (ru CHR ''-'')]) p2
                else (case parseClassAtom p2 of
                        (Inl e, p3) \<Rightarrow> (Inl e, p3)
                      | (Inr mx, p3) \<Rightarrow>
                          if mx < mn then (Inl (ErrBadRange mn mx), p3)
                          else parseCharClassLoop (ranges @ [mkRange mn mx]) p3))
             else parseCharClassLoop (ranges @ [mkRange mn mn]) p1)
      else (Inr ranges, p))"
  by pat_completeness auto
termination
proof -
  have adv: "p_input q' = p_input q \<and> p_pos q < p_pos q' \<and> p_pos q' \<le> length (p_input q)"
    if "parseClassAtom q = (Inr r, q')" for q r q'
    using that
    by (simp add: parseClassAtom_def peek_def next'_def Let_def split: if_splits) auto
  have nx: "p_input (snd (next' q)) = p_input q \<and> p_pos q \<le> p_pos (snd (next' q))
            \<and> (p_pos (snd (next' q)) \<le> length (p_input q) \<or> p_pos (snd (next' q)) = p_pos q)" for q
    by (simp add: next'_def)
  show ?thesis
  proof (relation "measure (\<lambda>(rs, p). length (p_input p) - p_pos p)", goal_cases)
    case 1
    show ?case by simp
  next
    case (2 ranges p x1 p1 mn p2)
    from adv[OF 2(2)[symmetric, unfolded 2(3)]] nx[of p1] 2(5)
    show ?case by auto
  next
    case (3 ranges p x1 p1 mn p2 x1a p3 mx)
    from adv[OF 3(2)[symmetric, unfolded 3(3)]] nx[of p1] 3(5)
      adv[OF 3(7)[symmetric, unfolded 3(8)]]
    show ?case by auto
  next
    case (4 ranges p x1 p1 mn)
    from adv[OF 4(2)[symmetric, unfolded 4(3)]]
    show ?case by auto
  qed
qed

declare parseCharClassLoop.simps [simp del]

definition parseCharClass :: "Parser \<Rightarrow> Node pres" where
  "parseCharClass p =
     (let p1 = snd (next' p);
          negate = (peek p1 = ru CHR ''^'');
          p2 = (if negate then snd (next' p1) else p1) in
      case parseCharClassLoop [] p2 of
        (Inl e, p3) \<Rightarrow> (Inl e, p3)
      | (Inr ranges, p3) \<Rightarrow>
          if peek p3 \<noteq> ru CHR '']'' then (Inl ErrMissingCloseBracket, p3)
          else (Inr (CharClassNode ClassCustom negate ranges []), snd (next' p3)))"


subsection \<open>Escapes\<close>

definition isMetaRune :: "rune \<Rightarrow> bool" where
  "isMetaRune r =
     (r = ru CHR ''.'' \<or> r = ru CHR ''*'' \<or> r = ru CHR ''+'' \<or> r = ru CHR ''?''
      \<or> r = ru CHR ''|'' \<or> r = ru CHR ''('' \<or> r = ru CHR '')'' \<or> r = ru CHR ''[''
      \<or> r = ru CHR '']'' \<or> r = ru CHR ''{'' \<or> r = ru CHR ''}'' \<or> r = ru CHR 0x5C
      \<or> r = ru CHR ''^'' \<or> r = ru CHR ''$'')"

definition parseEscape :: "Parser \<Rightarrow> Node pres" where
  "parseEscape p =
     (let p1 = snd (next' p) in
      if p_pos p1 \<ge> length (p_input p1) then (Inl ErrUnterminatedEscape, p1)
      else let r = peek p1; p2 = snd (next' p1) in
        if isMetaRune r then (Inr (CharNode r), p2)
        else if r = ru CHR ''n'' then (Inr (CharNode 0x0A), p2)
        else if r = ru CHR ''r'' then (Inr (CharNode 0x0D), p2)
        else if r = ru CHR ''t'' then (Inr (CharNode 0x09), p2)
        else if r = ru CHR ''f'' then (Inr (CharNode 0x0C), p2)
        else if r = ru CHR ''v'' then (Inr (CharNode 0x0B), p2)
        else if r = ru CHR ''d'' then (Inr (CharClassNode ClassDigit False [] []), p2)
        else if r = ru CHR ''D'' then (Inr (CharClassNode ClassDigit True [] []), p2)
        else if r = ru CHR ''w'' then (Inr (CharClassNode ClassWord False [] []), p2)
        else if r = ru CHR ''W'' then (Inr (CharClassNode ClassWord True [] []), p2)
        else if r = ru CHR ''s'' then (Inr (CharClassNode ClassSpace False [] []), p2)
        else if r = ru CHR ''S'' then (Inr (CharClassNode ClassSpace True [] []), p2)
        else if r = ru CHR ''A'' then (Inr (BoundaryNode NodeBeginText), p2)
        else if r = ru CHR ''z'' then (Inr (BoundaryNode NodeEndText), p2)
        else if r = ru CHR ''b'' then (Inr (BoundaryNode NodeWordBoundary), p2)
        else if r = ru CHR ''B'' then (Inr (BoundaryNode NodeNonWordBoundary), p2)
        else if ru CHR ''1'' \<le> r \<and> r \<le> ru CHR ''9'' then
          (let index = r - ru CHR ''0'' in
           if index > p_captures p2 then (Inl (ErrNoSuchGroup index), p2)
           else (Inr (BackrefNode index []), p2))
        else if r = ru CHR ''p'' \<or> r = ru CHR ''P'' then
          (if peek p2 \<noteq> ru CHR ''{'' then (Inl ErrBadUnicodeProperty, p2)
           else let p3 = snd (next' p2); p4 = skipTo (ru CHR ''}'') p3 in
             if peek p4 \<noteq> ru CHR ''}'' then (Inl ErrMissingBrace, p4)
             else (Inr (CharClassNode ClassUnicode (r = ru CHR ''P'') []
                          (slice (p_input p4) (p_pos p3) (p_pos p4))),
                   snd (next' p4)))
        else if r = ru CHR ''k'' then
          (if peek p2 \<noteq> ru CHR ''<'' then (Inl ErrBadNamedBackref, p2)
           else let p3 = snd (next' p2); p4 = skipTo (ru CHR ''>'') p3 in
             if peek p4 \<noteq> ru CHR ''>'' then (Inl ErrMissingCloseAngle, p4)
             else let name = slice (p_input p4) (p_pos p3) (p_pos p4);
                      p5 = snd (next' p4) in
               (case p_capNames p5 name of
                  None \<Rightarrow> (Inl (ErrNoSuchName name), p5)
                | Some index \<Rightarrow> (Inr (BackrefNode index name), p5)))
        else (Inr (CharNode r), p2))"

subsection \<open>The recursive descent\<close>

text \<open>
  \<open>parseExpr\<close>, \<open>parseConcat\<close>, \<open>parseTerm\<close>, \<open>parseAtom\<close>, \<open>parseGroup\<close>,
  \<open>parseNamedCapture\<close> and \<open>parseFlags\<close> call each other.  They are one function
  \<open>parse\<close> here, which takes the name of the Go function as its first argument; the two
  \<open>for\<close> loops carry their local variable (\<open>left\<close> of \<open>parseExpr\<close>, \<open>nodes\<close> of
  \<open>parseConcat\<close>) in that name.  The result is \<open>None\<close> if the Go function does not
  return.
\<close>

datatype pcall =
    ParseExpr | ParseExprLoop Node | ParseConcat "Node list" | ParseTerm | ParseAtom
  | ParseGroup | ParseNamedCapture | ParseFlags

text \<open>What \<open>parseTerm\<close> does once it has its atom.\<close>

definition parseQuantifier :: "Node \<Rightarrow> Parser \<Rightarrow> Node pres" where
  "parseQuantifier atom p =
     (if peek p = ru CHR ''*'' \<or> peek p = ru CHR ''+'' \<or> peek p = ru CHR ''?'' then
        parseRepeat atom p
      else if peek p = ru CHR ''{'' \<and> p_pos p + 1 < length (p_input p)
              \<and> isDigit (p_input p ! (p_pos p + 1)) then
        parseRepeatRange atom p
      else (Inr atom, p))"

text \<open>The closing parenthesis of a group, and the node built from its body.\<close>

definition closeParen :: "(Node \<Rightarrow> Node) \<Rightarrow> Node \<Rightarrow> Parser \<Rightarrow> Node pres" where
  "closeParen mk expr p =
     (if peek p \<noteq> ru CHR '')'' then (Inl ErrMissingCloseParen, p)
      else (Inr (mk expr), snd (next' p)))"

partial_function (option) parse :: "pcall \<Rightarrow> Parser \<Rightarrow> (Node pres) option" where
  "parse f p =
     (case f of
        ParseExpr \<Rightarrow>
          do { (res, p1) \<leftarrow> parse (ParseConcat []) p;
               case res of
                 Inl e \<Rightarrow> Some (Inl e, p1)
               | Inr left \<Rightarrow> parse (ParseExprLoop left) p1 }
      | ParseExprLoop left \<Rightarrow>
          if peek p = ru CHR ''|'' then
            do { (res, p1) \<leftarrow> parse (ParseConcat []) (snd (next' p));
                 case res of
                   Inl e \<Rightarrow> Some (Inl e, p1)
                 | Inr right \<Rightarrow> parse (ParseExprLoop (AltNode left right)) p1 }
          else Some (Inr left, p)
      | ParseConcat nodes \<Rightarrow>
          if peek p = 0 \<or> peek p = ru CHR ''|'' \<or> peek p = ru CHR '')'' then
            Some (if length nodes = 1 then Inr (hd nodes) else Inr (ConcatNode nodes), p)
          else
            do { (res, p1) \<leftarrow> parse ParseTerm p;
                 case res of
                   Inl e \<Rightarrow> Some (Inl e, p1)
                 | Inr item \<Rightarrow> parse (ParseConcat (nodes @ [item])) p1 }
      | ParseTerm \<Rightarrow>
          do { (res, p1) \<leftarrow> parse ParseAtom p;
               case res of
                 Inl e \<Rightarrow> Some (Inl e, p1)
               | Inr atom \<Rightarrow> Some (parseQuantifier atom p1) }
      | ParseAtom \<Rightarrow>
          (let r = peek p in
           if r = 0 then Some (Inl ErrUnexpectedEnd, p)
           else if r = ru CHR ''|'' \<or> r = ru CHR ''*'' \<or> r = ru CHR ''+''
                   \<or> r = ru CHR ''?'' \<or> r = ru CHR ''}'' then
             Some (Inl (ErrUnexpectedChar r), p)
           else if r = ru CHR ''.'' then
             Some (let p1 = snd (next' p) in
                   (Inr (AnyCharNode (rf_dotMatchesNL (p_flags p1))), p1))
           else if r = ru CHR ''['' then Some (parseCharClass p)
           else if r = ru CHR ''('' then parse ParseGroup p
           else if r = ru CHR '')'' then Some (Inl ErrUnmatchedCloseParen, p)
           else if r = ru CHR 0x5C then Some (parseEscape p)
           else if r = ru CHR ''^'' then
             Some (Inr (BoundaryNode NodeBeginLine), snd (next' p))
           else if r = ru CHR ''$'' then
             Some (Inr (BoundaryNode NodeEndLine), snd (next' p))
           else Some (Inr (CharNode r), snd (next' p)))
      | ParseGroup \<Rightarrow>
          (let p1 = snd (next' p) in
           if peek p1 = ru CHR ''?'' then
             (let p2 = snd (next' p1) in
              if p_pos p2 \<ge> length (p_input p2) then Some (Inl ErrIncompleteGroup, p2)
              else if peek p2 = ru CHR '':'' then
                do { (res, p3) \<leftarrow> parse ParseExpr (snd (next' p2));
                     case res of
                       Inl e \<Rightarrow> Some (Inl e, p3)
                     | Inr expr \<Rightarrow> Some (closeParen GroupNode expr p3) }
              else if peek p2 = ru CHR ''P'' then parse ParseNamedCapture p2
              else if peek p2 = ru CHR ''i'' \<or> peek p2 = ru CHR ''m''
                      \<or> peek p2 = ru CHR ''s'' \<or> peek p2 = ru CHR ''U'' then
                parse ParseFlags p2
              else Some (Inl (ErrUnknownGroup (peek p2)), p2))
           else
             (let index = p_captures p1 + 1;
                  p2 = p1\<lparr>p_captures := index,
                          p_subexpNames := p_subexpNames p1 @ [[]]\<rparr> in
              do { (res, p3) \<leftarrow> parse ParseExpr p2;
                   case res of
                     Inl e \<Rightarrow> Some (Inl e, p3)
                   | Inr expr \<Rightarrow> Some (closeParen (CaptureNode index []) expr p3) }))
      | ParseNamedCapture \<Rightarrow>
          (let (r1, p1) = next' p in
           if r1 \<noteq> ru CHR ''P'' then Some (Inl ErrBadNamedCapture, p1)
           else let (r2, p2) = next' p1 in
             if r2 \<noteq> ru CHR ''<'' then Some (Inl ErrBadNamedCapture, p2)
             else let p3 = skipTo (ru CHR ''>'') p2 in
               if peek p3 = 0 then Some (Inl ErrMissingCloseAngle, p3)
               else let name = slice (p_input p3) (p_pos p2) (p_pos p3) in
                 if name = [] then Some (Inl ErrEmptyName, p3)
                 else let p4 = snd (next' p3) in
                   if p_capNames p4 name \<noteq> None then Some (Inl (ErrDuplicateName name), p4)
                   else let index = p_captures p4 + 1;
                            p5 = p4\<lparr>p_captures := index,
                                    p_capNames := (p_capNames p4)(name \<mapsto> index),
                                    p_subexpNames := p_subexpNames p4 @ [name]\<rparr> in
                     do { (res, p6) \<leftarrow> parse ParseExpr p5;
                          case res of
                            Inl e \<Rightarrow> Some (Inl e, p6)
                          | Inr expr \<Rightarrow> Some (closeParen (CaptureNode index name) expr p6) })
      | ParseFlags \<Rightarrow>
          (let oldFlags = p_flags p;
               ((onFlags, offFlags), p1) = parseModifiers p;
               p2 = p1\<lparr>p_flags := applyModifiers onFlags offFlags (p_flags p1)\<rparr> in
           if peek p2 = ru CHR '':'' then
             do { (res, p3) \<leftarrow> parse ParseExpr (snd (next' p2));
                  case res of
                    Inl e \<Rightarrow> Some (Inl e, p3)
                  | Inr expr \<Rightarrow>
                      if peek p3 \<noteq> ru CHR '')'' then Some (Inl ErrMissingCloseParen, p3)
                      else Some (Inr expr, (snd (next' p3))\<lparr>p_flags := oldFlags\<rparr>) }
           else if peek p2 \<noteq> ru CHR '')'' then Some (Inl ErrMissingCloseParen, p2)
           else Some (Inr (GroupNode (ConcatNode [])), snd (next' p2))))"

declare parse.simps [code]

definition parseExpr :: "Parser \<Rightarrow> (Node pres) option" where
  "parseExpr p = parse ParseExpr p"

text \<open>\<open>Parse\<close> returns the tree, the parser's flags at that moment, and the error.\<close>

definition Parse :: "Parser \<Rightarrow> ((error + Node) \<times> regexpFlags) option" where
  "Parse p =
     do { (res, p1) \<leftarrow> parseExpr p;
          case res of
            Inl e \<Rightarrow> Some (Inl e, p_flags p1)
          | Inr expr \<Rightarrow>
              if p_pos p1 < length (p_input p1) then
                Some (Inl (ErrTrailingInput (peek p1)), p_flags p1)
              else Some (Inr expr, p_flags p1) }"


section \<open>compiler.go\<close>

subsection \<open>Instructions and character classes\<close>

datatype InstrType =
    InstrChar | InstrAnyChar | InstrCharClass | InstrMatch | InstrJump | InstrSplit
  | InstrSave | InstrBackref | InstrWordBoundary | InstrNonWordBoundary | InstrBeginLine
  | InstrEndLine | InstrBeginText | InstrEndText

datatype SaveType = SaveBegin | SaveEnd

text \<open>
  The map \<open>unicode\<close> of a class is the list of its entries; the code only asks whether
  some key of it is \<open>L\<close>.
\<close>

record charClass =
  cc_anyOf :: "rune list"
  cc_ranges :: "runeRange list"
  cc_classType :: CharClassType
  cc_negate :: bool
  cc_unicode :: "(rune list \<times> bool) list"
  cc_caseInsensitive :: bool

text \<open>The field \<open>Char\<close> of the Go struct is \<open>Char_r\<close>; a nil \<open>CharClass\<close> is \<open>None\<close>.\<close>

record Instr =
  Op :: InstrType
  Next :: int
  Arg :: int
  SaveType :: SaveType
  Char_r :: rune
  CharClass :: "charClass option"
  Greedy :: bool
  Possessive :: bool

text \<open>The zero value of the struct: what a Go struct literal leaves in a field it omits.\<close>

definition zeroInstr :: Instr where
  "zeroInstr =
     \<lparr>Op = InstrChar, Next = 0, Arg = 0, SaveType = SaveBegin, Char_r = 0,
      CharClass = None, Greedy = False, Possessive = False\<rparr>"

text \<open>
  The functions of Go's package \<open>unicode\<close> that the engine calls.  Its tables are not
  part of the repository.  \<open>unicode_IsSpace\<close> is the full definition.  \<open>unicode_ToLower\<close>
  and \<open>unicode_IsLetter\<close> are given on the Latin-1 range U+0000 to U+00FF, where they
  agree with Go; above it this model leaves a code point unchanged and calls it no
  letter, which Go does not, so nothing below is stated about such a code point in a
  case-insensitive or \<open>\p{L}\<close> class.
\<close>

definition unicode_ToLower :: "rune \<Rightarrow> rune" where
  "unicode_ToLower r =
     (if ru CHR ''A'' \<le> r \<and> r \<le> ru CHR ''Z'' then r + 32
      else if 0xC0 \<le> r \<and> r \<le> 0xDE \<and> r \<noteq> 0xD7 then r + 32
      else r)"

definition unicode_IsSpace :: "rune \<Rightarrow> bool" where
  "unicode_IsSpace r =
     ((0x09 \<le> r \<and> r \<le> 0x0D) \<or> r = 0x20 \<or> r = 0x85 \<or> r = 0xA0 \<or> r = 0x1680
      \<or> (0x2000 \<le> r \<and> r \<le> 0x200A) \<or> r = 0x2028 \<or> r = 0x2029 \<or> r = 0x202F
      \<or> r = 0x205F \<or> r = 0x3000)"

definition unicode_IsLetter :: "rune \<Rightarrow> bool" where
  "unicode_IsLetter r =
     ((ru CHR ''A'' \<le> r \<and> r \<le> ru CHR ''Z'') \<or> (ru CHR ''a'' \<le> r \<and> r \<le> ru CHR ''z'')
      \<or> r = 0xAA \<or> r = 0xB5 \<or> r = 0xBA \<or> (0xC0 \<le> r \<and> r \<le> 0xD6)
      \<or> (0xD8 \<le> r \<and> r \<le> 0xF6) \<or> (0xF8 \<le> r \<and> r \<le> 0xFF))"

definition isWordChar :: "rune \<Rightarrow> bool" where
  "isWordChar r =
     ((ru CHR ''a'' \<le> r \<and> r \<le> ru CHR ''z'') \<or> (ru CHR ''A'' \<le> r \<and> r \<le> ru CHR ''Z'')
      \<or> (ru CHR ''0'' \<le> r \<and> r \<le> ru CHR ''9'') \<or> r = ru CHR ''_'')"

text \<open>
  \<open>charClass.matches\<close>: the first test that hits returns \<open>!c.negate\<close>, and the last
  line returns \<open>c.negate\<close>.
\<close>

definition charClass_hits :: "charClass \<Rightarrow> rune \<Rightarrow> bool" where
  "charClass_hits c r =
     (list_ex (\<lambda>ch. r = ch \<or> (cc_caseInsensitive c \<and> unicode_ToLower r = unicode_ToLower ch))
        (cc_anyOf c)
      \<or> list_ex (\<lambda>rng. (r \<ge> rr_min rng \<and> r \<le> rr_max rng)
                     \<or> (cc_caseInsensitive c
                         \<and> unicode_ToLower r \<ge> unicode_ToLower (rr_min rng)
                         \<and> unicode_ToLower r \<le> unicode_ToLower (rr_max rng)))
          (cc_ranges c)
      \<or> (case cc_classType c of
            ClassCustom \<Rightarrow> False
          | ClassDigit \<Rightarrow> ru CHR ''0'' \<le> r \<and> r \<le> ru CHR ''9''
          | ClassWord \<Rightarrow> isWordChar r
          | ClassSpace \<Rightarrow> unicode_IsSpace r
          | ClassUnicode \<Rightarrow>
              list_ex (\<lambda>(prop, v). prop = runes ''L'' \<and> unicode_IsLetter r) (cc_unicode c)))"

definition charClass_matches :: "charClass \<Rightarrow> rune \<Rightarrow> bool" where
  "charClass_matches c r = (if charClass_hits c r then \<not> cc_negate c else cc_negate c)"

subsection \<open>The compiler's state\<close>

record Flags =
  CaseInsensitive :: bool
  Multiline :: bool
  DotMatchesNL :: bool
  Ungreedy :: bool

record Compiler =
  c_instrs :: "Instr list"
  c_numCaptures :: int
  c_subexpNames :: "rune list list"
  c_flags :: Flags

record program =
  prog_instrs :: "Instr list"
  prog_numCaptures :: int
  prog_subexpNames :: "rune list list"

type_synonym 'a cres = "error + 'a \<times> Compiler"

definition newCompiler :: Compiler where
  "newCompiler =
     \<lparr>c_instrs = [], c_numCaptures = 0, c_subexpNames = [],
      c_flags = \<lparr>CaseInsensitive = False, Multiline = False, DotMatchesNL = False,
                 Ungreedy = False\<rparr>\<rparr>"

text \<open>\<open>len(c.instrs)\<close>.\<close>

definition clen :: "Compiler \<Rightarrow> int" where
  "clen c = int (length (c_instrs c))"

definition emit :: "Instr \<Rightarrow> Compiler \<Rightarrow> int \<times> Compiler" where
  "emit instr c = (clen c, c\<lparr>c_instrs := c_instrs c @ [instr]\<rparr>)"

text \<open>\<open>c.instrs[pos].Next = next\<close> panics when \<open>pos\<close> is no index of the slice.\<close>

definition patch :: "int \<Rightarrow> int \<Rightarrow> Compiler \<Rightarrow> error + Compiler" where
  "patch pos nxt c =
     (if 0 \<le> pos \<and> pos < clen c then
        Inr (c\<lparr>c_instrs := (c_instrs c)[nat pos := (c_instrs c ! nat pos)\<lparr>Next := nxt\<rparr>]\<rparr>)
      else Inl PanicIndex)"

definition patchArg :: "int \<Rightarrow> int \<Rightarrow> Compiler \<Rightarrow> error + Compiler" where
  "patchArg pos arg c =
     (if 0 \<le> pos \<and> pos < clen c then
        Inr (c\<lparr>c_instrs := (c_instrs c)[nat pos := (c_instrs c ! nat pos)\<lparr>Arg := arg\<rparr>]\<rparr>)
      else Inl PanicIndex)"

text \<open>\<open>patch\<close> and \<open>patchArg\<close> of the same instruction, in either order.\<close>

definition patchBoth :: "int \<Rightarrow> int \<Rightarrow> int \<Rightarrow> Compiler \<Rightarrow> error + Compiler" where
  "patchBoth pos nxt arg c =
     (case patch pos nxt c of Inl e \<Rightarrow> Inl e | Inr c1 \<Rightarrow> patchArg pos arg c1)"


subsection \<open>Lowering\<close>

text \<open>
  \<open>compileNode\<close> is recursive in the tree.  The functions it hands a child node to
  (\<open>compileStar\<close>, \<open>compilePlus\<close>, \<open>compileQuest\<close>, \<open>compileRepeat\<close>, and the loop over
  the children of a \<open>ConcatNode\<close>) call \<open>c.compileNode(node)\<close> on that child and on
  nothing else; here they take that call, \<open>body = compileNode node\<close>, as their
  argument.
\<close>

fun compileConcatRest :: "(Compiler \<Rightarrow> int cres) list \<Rightarrow> int \<Rightarrow> int \<Rightarrow> Compiler \<Rightarrow> int cres" where
  "compileConcatRest [] start lastNext c = Inr (start, c)"
| "compileConcatRest (child # rest) start lastNext c =
     (case child c of
        Inl e \<Rightarrow> Inl e
      | Inr (cur, c1) \<Rightarrow>
          (case patch (lastNext - 1) cur c1 of
             Inl e \<Rightarrow> Inl e
           | Inr c2 \<Rightarrow> compileConcatRest rest start (clen c2) c2))"

definition compileConcat :: "(Compiler \<Rightarrow> int cres) list \<Rightarrow> Compiler \<Rightarrow> int cres" where
  "compileConcat children c =
     (case children of
        [] \<Rightarrow> Inr (emit (zeroInstr\<lparr>Op := InstrJump, Next := clen c + 1\<rparr>) c)
      | child # rest \<Rightarrow>
          (case child c of
             Inl e \<Rightarrow> Inl e
           | Inr (start, c1) \<Rightarrow> compileConcatRest rest start (clen c1) c1))"

definition compileAlt :: "(Compiler \<Rightarrow> int cres) \<Rightarrow> (Compiler \<Rightarrow> int cres) \<Rightarrow> Compiler \<Rightarrow> int cres" where
  "compileAlt leftBody rightBody c =
     (case leftBody c of
        Inl e \<Rightarrow> Inl e
      | Inr (left, c1) \<Rightarrow>
          (let (jumpPos, c2) = emit (zeroInstr\<lparr>Op := InstrJump, Next := -1\<rparr>) c1 in
           case rightBody c2 of
             Inl e \<Rightarrow> Inl e
           | Inr (right, c3) \<Rightarrow>
               (let rightEnd = clen c3 in
                case patch jumpPos rightEnd c3 of
                  Inl e \<Rightarrow> Inl e
                | Inr c4 \<Rightarrow>
                    Inr (emit (zeroInstr\<lparr>Op := InstrSplit, Next := left,
                                           Arg := jumpPos + 1\<rparr>) c4))))"

definition compileStar :: "(Compiler \<Rightarrow> int cres) \<Rightarrow> bool \<Rightarrow> bool \<Rightarrow> Compiler \<Rightarrow> int cres" where
  "compileStar body nonGreedy possessive c =
     (if possessive then
        (case body c of
           Inl e \<Rightarrow> Inl e
         | Inr (bodyPos, c1) \<Rightarrow>
             (let (splitPos, c2) =
                    emit (zeroInstr\<lparr>Op := InstrSplit, Next := bodyPos, Arg := -1,
                                     Greedy := \<not> nonGreedy, Possessive := True\<rparr>) c1;
                  (jumpPos, c3) = emit (zeroInstr\<lparr>Op := InstrJump, Next := bodyPos\<rparr>) c2 in
              case patchArg splitPos (clen c3) c3 of
                Inl e \<Rightarrow> Inl e
              | Inr c4 \<Rightarrow> Inr (splitPos, c4)))
      else
        (let (splitPos, c1) =
               emit (zeroInstr\<lparr>Op := InstrSplit, Next := -1, Arg := -1,
                                Greedy := \<not> nonGreedy\<rparr>) c in
         case body c1 of
           Inl e \<Rightarrow> Inl e
         | Inr (bodyPos, c2) \<Rightarrow>
             (case (if nonGreedy then patchBoth splitPos (clen c2 + 1) bodyPos c2
                    else patchBoth splitPos bodyPos (clen c2 + 1) c2) of
                Inl e \<Rightarrow> Inl e
              | Inr c3 \<Rightarrow>
                  (let (jumpPos, c4) =
                         emit (zeroInstr\<lparr>Op := InstrJump, Next := splitPos\<rparr>) c3 in
                   Inr (splitPos, c4)))))"

definition compilePlus :: "(Compiler \<Rightarrow> int cres) \<Rightarrow> bool \<Rightarrow> bool \<Rightarrow> Compiler \<Rightarrow> int cres" where
  "compilePlus body nonGreedy possessive c =
     (case body c of
        Inl e \<Rightarrow> Inl e
      | Inr (start, c1) \<Rightarrow>
          if possessive then
            (let (jumpPos, c2) = emit (zeroInstr\<lparr>Op := InstrJump, Next := start\<rparr>) c1 in
             Inr (start, c2))
          else
            (let splitInstr =
                   (if nonGreedy then
                      zeroInstr\<lparr>Op := InstrSplit, Next := clen c1 + 2, Arg := start,
                                 Greedy := False\<rparr>
                    else
                      zeroInstr\<lparr>Op := InstrSplit, Next := start, Arg := clen c1 + 2,
                                 Greedy := True\<rparr>);
                 (splitPos, c2) = emit splitInstr c1 in
             Inr (start, c2)))"

definition compileQuest :: "(Compiler \<Rightarrow> int cres) \<Rightarrow> bool \<Rightarrow> bool \<Rightarrow> Compiler \<Rightarrow> int cres" where
  "compileQuest body nonGreedy possessive c =
     (let (splitPos, c1) =
            emit (zeroInstr\<lparr>Op := InstrSplit, Next := -1, Arg := -1,
                             Greedy := \<not> nonGreedy, Possessive := possessive\<rparr>) c in
      case body c1 of
        Inl e \<Rightarrow> Inl e
      | Inr (bodyPos, c2) \<Rightarrow>
          (case (if nonGreedy then patchBoth splitPos (clen c2 + 1) bodyPos c2
                 else patchBoth splitPos bodyPos (clen c2 + 1) c2) of
             Inl e \<Rightarrow> Inl e
           | Inr c3 \<Rightarrow> Inr (splitPos, c3)))"

text \<open>
  In \<open>compileRepeat\<close>, the search
  \<open>for c.instrs[last].Next != -1 && last < len(c.instrs)-1 { last++ }\<close>;
  reading \<open>c.instrs[last]\<close> panics when \<open>last\<close> is no index.
\<close>

function findLast :: "Instr list \<Rightarrow> int \<Rightarrow> error + int" where
  "findLast instrs lst =
     (if lst < 0 \<or> lst \<ge> int (length instrs) then Inl PanicIndex
      else if Next (instrs ! nat lst) \<noteq> -1 \<and> lst < int (length instrs) - 1 then
        findLast instrs (lst + 1)
      else Inr lst)"
  by pat_completeness auto
termination
  by (relation "measure (\<lambda>(instrs, lst). nat (int (length instrs) - lst))") auto

declare findLast.simps [simp del]

text \<open>The loop \<open>for i := 1; i < min; i++\<close> of \<open>compileRepeat\<close>.\<close>

function compileRepeatMin :: "(Compiler \<Rightarrow> int cres) \<Rightarrow> int \<Rightarrow> int \<Rightarrow> int \<Rightarrow> Compiler \<Rightarrow> error + Compiler" where
  "compileRepeatMin body i mn prev c =
     (if i < mn then
        (case body c of
           Inl e \<Rightarrow> Inl e
         | Inr (current, c1) \<Rightarrow>
             (case findLast (c_instrs c1) prev of
                Inl e \<Rightarrow> Inl e
              | Inr lst \<Rightarrow>
                  (case (if lst < clen c1 then patch lst current c1 else Inr c1) of
                     Inl e \<Rightarrow> Inl e
                   | Inr c2 \<Rightarrow> compileRepeatMin body (i + 1) mn current c2)))
      else Inr c)"
  by pat_completeness auto
termination
  by (relation "measure (\<lambda>(body, i, mn, prev, c). nat (mn - i))") auto

declare compileRepeatMin.simps [simp del]

text \<open>The loop \<open>for i := 0; i < max-min; i++\<close> of \<open>compileRepeat\<close>.\<close>

function compileRepeatOpt :: "(Compiler \<Rightarrow> int cres) \<Rightarrow> int \<Rightarrow> int \<Rightarrow> bool \<Rightarrow> bool \<Rightarrow> Compiler \<Rightarrow> error + Compiler" where
  "compileRepeatOpt body i n nonGreedy possessive c =
     (if i < n then
        (let (splitPos, c1) =
               emit (zeroInstr\<lparr>Op := InstrSplit, Next := -1, Arg := -1,
                                Greedy := \<not> nonGreedy, Possessive := possessive\<rparr>) c in
         case body c1 of
           Inl e \<Rightarrow> Inl e
         | Inr (bodyPos, c2) \<Rightarrow>
             (case (if nonGreedy then patchBoth splitPos (clen c2) bodyPos c2
                    else patchBoth splitPos bodyPos (clen c2) c2) of
                Inl e \<Rightarrow> Inl e
              | Inr c3 \<Rightarrow>
                  compileRepeatOpt body (i + 1) n nonGreedy possessive
                    (if possessive \<and> i < n - 1 then
                       snd (emit (zeroInstr\<lparr>Op := InstrJump, Next := clen c3\<rparr>) c3)
                     else c3)))
      else Inr c)"
  by pat_completeness auto
termination
  by (relation "measure (\<lambda>(body, i, n, ng, ps, c). nat (n - i))") auto

declare compileRepeatOpt.simps [simp del]

definition compileRepeat :: "(Compiler \<Rightarrow> int cres) \<Rightarrow> int \<Rightarrow> int \<Rightarrow> bool \<Rightarrow> bool \<Rightarrow> Compiler \<Rightarrow> int cres" where
  "compileRepeat body mn mx nonGreedy possessive c =
     (case (if mn > 0 then
              (case body c of
                 Inl e \<Rightarrow> Inl e
               | Inr (start, c1) \<Rightarrow>
                   (case compileRepeatMin body 1 mn start c1 of
                      Inl e \<Rightarrow> Inl e
                    | Inr c2 \<Rightarrow> Inr (start, c2)))
            else Inr (clen c, c)) of
        Inl e \<Rightarrow> Inl e
      | Inr (start, c2) \<Rightarrow>
          if mx = -1 then
            (case body c2 of
               Inl e \<Rightarrow> Inl e
             | Inr (repeatBody, c3) \<Rightarrow>
                 (let splitOp =
                        (if possessive then
                           zeroInstr\<lparr>Op := InstrSplit, Next := repeatBody,
                                      Arg := clen c3 + 2, Greedy := \<not> nonGreedy,
                                      Possessive := True\<rparr>
                         else if nonGreedy then
                           zeroInstr\<lparr>Op := InstrSplit, Next := clen c3 + 2,
                                      Arg := repeatBody, Greedy := False\<rparr>
                         else
                           zeroInstr\<lparr>Op := InstrSplit, Next := repeatBody,
                                      Arg := clen c3 + 2, Greedy := True\<rparr>);
                      (splitPos, c4) = emit splitOp c3;
                      (jumpPos, c5) = emit (zeroInstr\<lparr>Op := InstrJump, Next := splitPos\<rparr>) c4 in
                  Inr (start, c5)))
          else if mx > mn then
            (case compileRepeatOpt body 0 (mx - mn) nonGreedy possessive c2 of
               Inl e \<Rightarrow> Inl e
             | Inr c3 \<Rightarrow> Inr (start, c3))
          else Inr (start, c2))"

text \<open>The bookkeeping at the end of the \<open>CaptureNode\<close> case.\<close>

definition recordCapture :: "int \<Rightarrow> rune list \<Rightarrow> Compiler \<Rightarrow> error + Compiler" where
  "recordCapture index name c =
     (let c1 = (if index > c_numCaptures c then c\<lparr>c_numCaptures := index\<rparr> else c);
          names0 = (if length (c_subexpNames c1) = 0 then [[]] else c_subexpNames c1);
          names1 = names0 @ replicate (nat (index + 1 - int (length names0))) [] in
      if name \<noteq> [] then
        (if 0 \<le> index then Inr (c1\<lparr>c_subexpNames := names1[nat index := name]\<rparr>)
         else Inl PanicIndex)
      else Inr (c1\<lparr>c_subexpNames := names1\<rparr>))"

definition boundaryOp :: "NodeType \<Rightarrow> error + InstrType" where
  "boundaryOp t =
     (case t of
        NodeWordBoundary \<Rightarrow> Inr InstrWordBoundary
      | NodeNonWordBoundary \<Rightarrow> Inr InstrNonWordBoundary
      | NodeBeginLine \<Rightarrow> Inr InstrBeginLine
      | NodeEndLine \<Rightarrow> Inr InstrEndLine
      | NodeBeginText \<Rightarrow> Inr InstrBeginText
      | NodeEndText \<Rightarrow> Inr InstrEndText
      | _ \<Rightarrow> Inl (ErrUnknownBoundary t))"

definition boolToInt :: "bool \<Rightarrow> int" where
  "boolToInt b = (if b then 1 else 0)"

fun compileNode :: "Node \<Rightarrow> Compiler \<Rightarrow> int cres" where
  "compileNode (CharNode r) c =
     (let ch = (if CaseInsensitive (c_flags c) then unicode_ToLower r else r) in
      Inr (emit (zeroInstr\<lparr>Op := InstrChar, Char_r := ch, Next := clen c + 1\<rparr>) c))"
| "compileNode (AnyCharNode dotMatchesNewline) c =
     (let dotMatchesNL = (dotMatchesNewline \<or> DotMatchesNL (c_flags c)) in
      Inr (emit (zeroInstr\<lparr>Op := InstrAnyChar, Arg := boolToInt dotMatchesNL,
                             Next := clen c + 1\<rparr>) c))"
| "compileNode (CharClassNode classType negate ranges unicodeKey) c =
     (let cls = \<lparr>cc_anyOf = [],
                   cc_ranges = (if classType = ClassCustom then ranges else []),
                   cc_classType = classType,
                   cc_negate = negate,
                   cc_unicode = (if classType = ClassUnicode then [(unicodeKey, True)] else []),
                   cc_caseInsensitive = CaseInsensitive (c_flags c)\<rparr> in
      Inr (emit (zeroInstr\<lparr>Op := InstrCharClass, CharClass := Some cls,
                             Next := clen c + 1\<rparr>) c))"
| "compileNode (ConcatNode nodes) c = compileConcat (map compileNode nodes) c"
| "compileNode (AltNode left right) c = compileAlt (compileNode left) (compileNode right) c"
| "compileNode (RepeatNode node mn mx repeatType possessive) c =
     (case Node_Type (RepeatNode node mn mx repeatType possessive) of
        NodeStar \<Rightarrow> compileStar (compileNode node) (repeatType = RepeatNonGreedy) possessive c
      | NodePlus \<Rightarrow> compilePlus (compileNode node) (repeatType = RepeatNonGreedy) possessive c
      | NodeQuest \<Rightarrow> compileQuest (compileNode node) (repeatType = RepeatNonGreedy) possessive c
      | NodeRepeat \<Rightarrow>
          compileRepeat (compileNode node) mn mx (repeatType = RepeatNonGreedy) possessive c
      | t \<Rightarrow> Inl (ErrUnknownRepeat t))"
| "compileNode (CaptureNode index name node) c =
     (let captureIndex = index * 2;
          (saveBegin, c1) =
             emit (zeroInstr\<lparr>Op := InstrSave, Arg := captureIndex, SaveType := SaveBegin,
                              Next := clen c + 1\<rparr>) c in
      case compileNode node c1 of
        Inl e \<Rightarrow> Inl e
      | Inr (body, c2) \<Rightarrow>
          (case patch saveBegin body c2 of
             Inl e \<Rightarrow> Inl e
           | Inr c3 \<Rightarrow>
               (let (saveEnd, c4) =
                      emit (zeroInstr\<lparr>Op := InstrSave, Arg := captureIndex + 1,
                                       SaveType := SaveEnd, Next := clen c3 + 1\<rparr>) c3 in
                case recordCapture index name c4 of
                  Inl e \<Rightarrow> Inl e
                | Inr c5 \<Rightarrow> Inr (saveBegin, c5))))"
| "compileNode (GroupNode node) c = compileNode node c"
| "compileNode (BackrefNode index name) c =
     Inr (emit (zeroInstr\<lparr>Op := InstrBackref, Arg := index, Next := clen c + 1\<rparr>) c)"
| "compileNode (BoundaryNode nodeType) c =
     (case boundaryOp nodeType of
        Inl e \<Rightarrow> Inl e
      | Inr op \<Rightarrow> Inr (emit (zeroInstr\<lparr>Op := op, Next := clen c + 1\<rparr>) c))"


subsection \<open>The program\<close>

text \<open>
  The renumbering that \<open>compile\<close> does when the root's code does not start at
  instruction 0, applied to one instruction.
\<close>

definition shiftInstr :: "int \<Rightarrow> Instr \<Rightarrow> Instr" where
  "shiftInstr start ins =
     (if Op ins = InstrJump \<or> Op ins = InstrSplit then
        (let ins1 = (if Next ins \<ge> start then ins\<lparr>Next := Next ins - start\<rparr> else ins) in
         if Arg ins1 \<ge> 0 \<and> Arg ins1 \<ge> start then ins1\<lparr>Arg := Arg ins1 - start\<rparr>
         else ins1)
      else ins)"

definition compile :: "Node \<Rightarrow> Compiler \<Rightarrow> error + program \<times> Compiler" where
  "compile node c =
     (case compileNode node c of
        Inl e \<Rightarrow> Inl e
      | Inr (start, c1) \<Rightarrow>
          (let c2 = snd (emit (zeroInstr\<lparr>Op := InstrMatch\<rparr>) c1) in
           if start \<noteq> 0 then
             (if start < 0 \<or> start > clen c2 then Inl PanicIndex
              else
                (let c3 = c2\<lparr>c_instrs := take (nat (clen c2 - start))
                                            (map (shiftInstr start) (c_instrs c2))\<rparr> in
                 Inr (\<lparr>prog_instrs = c_instrs c3, prog_numCaptures = c_numCaptures c3,
                       prog_subexpNames = c_subexpNames c3\<rparr>, c3)))
           else
             Inr (\<lparr>prog_instrs = c_instrs c2, prog_numCaptures = c_numCaptures c2,
                   prog_subexpNames = c_subexpNames c2\<rparr>, c2)))"

section \<open>matcher.go\<close>

text \<open>
  The field \<open>captures\<close> of the Go matcher is never written or read; it is left out.
  A function that the Go code runs on the matcher returns the matcher it leaves behind.
\<close>

record Matcher =
  m_prog :: program
  m_input :: "rune list"
  m_pos :: int
  m_multiline :: bool
  m_caseInsensitive :: bool
  m_dotMatchesNL :: bool
  m_startPos :: int
  m_saved :: "int list"
  m_maxSteps :: int
  m_steps :: int

record BacktrackPoint =
  bp_pc :: int
  bp_pos :: int
  bp_captures :: "int list"

type_synonym 'a mres = "error + 'a \<times> Matcher"

text \<open>
  \<open>make([]int, numSlots)\<close> needs \<open>numSlots \<ge> 0\<close>, which holds for the
  \<open>numCaptures \<ge> 0\<close> of every program that \<open>compile\<close> returns.
\<close>

definition newMatcher :: "program \<Rightarrow> rune list \<Rightarrow> Matcher" where
  "newMatcher prog inp =
     \<lparr>m_prog = prog,
      m_input = inp,
      m_pos = 0,
      m_multiline =
        list_ex (\<lambda>instr. Op instr = InstrBeginLine \<or> Op instr = InstrEndLine) (prog_instrs prog),
      m_caseInsensitive =
        list_ex (\<lambda>instr. Op instr = InstrCharClass \<and>
                   (case CharClass instr of None \<Rightarrow> False | Some cls \<Rightarrow> cc_caseInsensitive cls))
          (prog_instrs prog),
      m_dotMatchesNL =
        list_ex (\<lambda>instr. Op instr = InstrAnyChar \<and> Arg instr = 1) (prog_instrs prog),
      m_startPos = 0,
      m_saved = replicate (nat ((prog_numCaptures prog + 1) * 2)) (-1),
      m_maxSteps = 1000000,
      m_steps = 0\<rparr>"

definition toLowerRune :: "rune \<Rightarrow> rune" where
  "toLowerRune r =
     (if ru CHR ''A'' \<le> r \<and> r \<le> ru CHR ''Z'' then r + (ru CHR ''a'' - ru CHR ''A'') else r)"

definition equalFoldRune :: "rune \<Rightarrow> rune \<Rightarrow> bool" where
  "equalFoldRune r1 r2 = (if r1 = r2 then True else toLowerRune r1 = toLowerRune r2)"

text \<open>Whether \<open>i\<close> is an index of the slice; reading or writing elsewhere panics.\<close>

definition inRange :: "'a list \<Rightarrow> int \<Rightarrow> bool" where
  "inRange xs i = (0 \<le> i \<and> i < int (length xs))"

definition isAtWordBoundary :: "rune list \<Rightarrow> int \<Rightarrow> error + bool" where
  "isAtWordBoundary inp pos =
     (if (pos > 0 \<and> \<not> inRange inp (pos - 1)) \<or> (pos < int (length inp) \<and> \<not> inRange inp pos)
      then Inl PanicIndex
      else
        (let left = (if pos > 0 then isWordChar (inp ! nat (pos - 1)) else False);
             right = (if pos < int (length inp) then isWordChar (inp ! nat pos) else False) in
         Inr (left \<noteq> right)))"

text \<open>The built-in \<open>copy(dst, src)\<close>: as many elements as both slices have.\<close>

definition goCopy :: "'a list \<Rightarrow> 'a list \<Rightarrow> 'a list" where
  "goCopy dst src =
     take (min (length dst) (length src)) src @ drop (min (length dst) (length src)) dst"

subsection \<open>One iteration of the loop of \<open>execute\<close>\<close>

text \<open>
  The backtrack stack is a list whose head is the top of the Go slice.  An iteration
  either goes round the loop again (\<open>Continue\<close>, with the matcher, the program counter
  and the stack) or leaves the function (\<open>Halt\<close>: a panic, or the returned boolean).
\<close>

datatype vmstep =
    Continue Matcher int "BacktrackPoint list"
  | Halt "bool mres"

text \<open>The label \<open>Backtrack\<close>.\<close>

definition backtrack :: "Matcher \<Rightarrow> BacktrackPoint list \<Rightarrow> vmstep" where
  "backtrack m stack =
     (case stack of
        [] \<Rightarrow> Halt (Inr (False, m))
      | bp # rest \<Rightarrow>
          Continue (m\<lparr>m_pos := bp_pos bp, m_saved := goCopy (m_saved m) (bp_captures bp)\<rparr>)
            (bp_pc bp) rest)"

text \<open>
  The comparison loop of the \<open>InstrBackref\<close> case, over \<open>i = 0, ..., refLen - 1\<close>:
  \<open>Inr False\<close> at the first difference.
\<close>

fun backrefEqual :: "rune list \<Rightarrow> int \<Rightarrow> int \<Rightarrow> nat list \<Rightarrow> error + bool" where
  "backrefEqual inp startPos pos [] = Inr True"
| "backrefEqual inp startPos pos (i # rest) =
     (if \<not> inRange inp (startPos + int i) \<or> \<not> inRange inp (pos + int i) then Inl PanicIndex
      else if inp ! nat (startPos + int i) \<noteq> inp ! nat (pos + int i) then Inr False
      else backrefEqual inp startPos pos rest)"

definition step :: "Matcher \<Rightarrow> Instr \<Rightarrow> BacktrackPoint list \<Rightarrow> vmstep" where
  "step m instr stack =
     (case Op instr of
        InstrMatch \<Rightarrow> Halt (Inr (True, m))
      | InstrChar \<Rightarrow>
          if m_pos m \<ge> int (length (m_input m)) then backtrack m stack
          else if m_pos m < 0 then Halt (Inl PanicIndex)
          else
            (let ch = m_input m ! nat (m_pos m);
                 matched = (if m_caseInsensitive m then equalFoldRune ch (Char_r instr)
                            else ch = Char_r instr) in
             if \<not> matched then backtrack m stack
             else Continue (m\<lparr>m_pos := m_pos m + 1\<rparr>) (Next instr) stack)
      | InstrAnyChar \<Rightarrow>
          if m_pos m \<ge> int (length (m_input m)) then backtrack m stack
          else if m_pos m < 0 then Halt (Inl PanicIndex)
          else
            (let ch = m_input m ! nat (m_pos m) in
             if \<not> m_dotMatchesNL m \<and> (ch = 0x0A \<or> ch = 0x0D) then backtrack m stack
             else Continue (m\<lparr>m_pos := m_pos m + 1\<rparr>) (Next instr) stack)
      | InstrCharClass \<Rightarrow>
          if m_pos m \<ge> int (length (m_input m)) then backtrack m stack
          else if m_pos m < 0 then Halt (Inl PanicIndex)
          else
            (case CharClass instr of
               None \<Rightarrow> Halt (Inl PanicIndex)
             | Some cls \<Rightarrow>
                 if \<not> charClass_matches cls (m_input m ! nat (m_pos m)) then backtrack m stack
                 else Continue (m\<lparr>m_pos := m_pos m + 1\<rparr>) (Next instr) stack)
      | InstrJump \<Rightarrow> Continue m (Next instr) stack
      | InstrSplit \<Rightarrow>
          if Possessive instr then
            (if Greedy instr then Continue m (Next instr) stack
             else Continue m (Arg instr) stack)
          else
            (let savepoint = m_saved m;
                 nextPC = (if Greedy instr then Next instr else Arg instr);
                 altPC = (if Greedy instr then Arg instr else Next instr) in
             Continue m nextPC
               (\<lparr>bp_pc = altPC, bp_pos = m_pos m, bp_captures = savepoint\<rparr> # stack))
      | InstrSave \<Rightarrow>
          (let slot = Arg instr in
           if \<not> inRange (m_saved m) slot then Halt (Inl PanicIndex)
           else Continue (m\<lparr>m_saved := (m_saved m)[nat slot := m_pos m]\<rparr>) (Next instr) stack)
      | InstrBackref \<Rightarrow>
          (let groupIdx = Arg instr;
               startSlot = groupIdx * 2;
               endSlot = startSlot + 1 in
           if startSlot \<ge> int (length (m_saved m)) then backtrack m stack
           else if startSlot < 0 then Halt (Inl PanicIndex)
           else if m_saved m ! nat startSlot < 0 then backtrack m stack
           else if \<not> inRange (m_saved m) endSlot then Halt (Inl PanicIndex)
           else if m_saved m ! nat endSlot < 0 then backtrack m stack
           else
             (let startPos = m_saved m ! nat startSlot;
                  endPos = m_saved m ! nat endSlot;
                  refLen = endPos - startPos in
              if m_pos m + refLen > int (length (m_input m)) then backtrack m stack
              else
                (case backrefEqual (m_input m) startPos (m_pos m) [0..<nat refLen] of
                   Inl e \<Rightarrow> Halt (Inl e)
                 | Inr False \<Rightarrow> backtrack m stack
                 | Inr True \<Rightarrow>
                     Continue (m\<lparr>m_pos := m_pos m + refLen\<rparr>) (Next instr) stack)))
      | InstrWordBoundary \<Rightarrow>
          (case isAtWordBoundary (m_input m) (m_pos m) of
             Inl e \<Rightarrow> Halt (Inl e)
           | Inr atBoundary \<Rightarrow>
               if \<not> atBoundary then backtrack m stack else Continue m (Next instr) stack)
      | InstrNonWordBoundary \<Rightarrow>
          (case isAtWordBoundary (m_input m) (m_pos m) of
             Inl e \<Rightarrow> Halt (Inl e)
           | Inr atBoundary \<Rightarrow>
               if atBoundary then backtrack m stack else Continue m (Next instr) stack)
      | InstrBeginLine \<Rightarrow>
          if m_pos m > 0 \<and> \<not> inRange (m_input m) (m_pos m - 1) then Halt (Inl PanicIndex)
          else if m_pos m > 0 \<and> m_input m ! nat (m_pos m - 1) \<noteq> 0x0A
                  \<and> m_input m ! nat (m_pos m - 1) \<noteq> 0x0D
                  \<and> (m_pos m \<noteq> m_startPos m \<or> \<not> m_multiline m) then
            backtrack m stack
          else Continue m (Next instr) stack
      | InstrEndLine \<Rightarrow>
          if m_pos m < 0 then Halt (Inl PanicIndex)
          else if m_pos m < int (length (m_input m)) \<and> m_input m ! nat (m_pos m) \<noteq> 0x0A
                  \<and> m_input m ! nat (m_pos m) \<noteq> 0x0D then
            backtrack m stack
          else Continue m (Next instr) stack
      | InstrBeginText \<Rightarrow>
          if m_pos m \<noteq> 0 then backtrack m stack else Continue m (Next instr) stack
      | InstrEndText \<Rightarrow>
          if m_pos m \<noteq> int (length (m_input m)) then backtrack m stack
          else Continue m (Next instr) stack)"

subsection \<open>\<open>execute\<close>\<close>

text \<open>
  The loop of \<open>execute\<close>: the step counter first, then the end of the program, then the
  instruction.  It ends because every iteration adds one to \<open>m.steps\<close> and leaves at
  \<open>m.steps > m.maxSteps\<close>.
\<close>

function executeLoop :: "Matcher \<Rightarrow> int \<Rightarrow> BacktrackPoint list \<Rightarrow> bool mres" where
  "executeLoop m pc stack =
     (let m1 = m\<lparr>m_steps := m_steps m + 1\<rparr> in
      if m_steps m1 > m_maxSteps m1 then Inr (False, m1)
      else if pc \<ge> int (length (prog_instrs (m_prog m1))) then Inr (False, m1)
      else if pc < 0 then Inl PanicIndex
      else
        (case step m1 (prog_instrs (m_prog m1) ! nat pc) stack of
           Halt r \<Rightarrow> r
         | Continue m2 pc2 stack2 \<Rightarrow> executeLoop m2 pc2 stack2))"
  by pat_completeness auto
termination
proof -
  have keep: "m_steps m2 = m_steps m1 \<and> m_maxSteps m2 = m_maxSteps m1"
    if "step m1 instr stack = Continue m2 pc2 stack2" for m1 instr stack m2 pc2 stack2
    using that
    by (cases "Op instr")
       (auto simp: step_def backtrack_def Let_def
             split: if_splits list.splits sum.splits option.splits bool.splits)
  show ?thesis
  proof (relation "measure (\<lambda>(m, pc, stack). nat (m_maxSteps m + 1 - m_steps m))", goal_cases)
    case 1
    show ?case by simp
  next
    case (2 m pc stack m1 m2 pc2 stack2)
    from 2 keep[of m1 "prog_instrs (m_prog m1) ! nat pc" stack m2 pc2 stack2]
    show ?case by simp
  qed
qed

declare executeLoop.simps [simp del]

definition execute :: "Matcher \<Rightarrow> int \<Rightarrow> bool mres" where
  "execute m pc = executeLoop m pc []"


subsection \<open>Match attempts\<close>

text \<open>
  What \<open>Match\<close> (in its loop) and \<open>MatchStart\<close> do for one start position: reset the
  matcher, set slot 0, run the program from instruction 0, and set slot 1 after a success.
\<close>

definition attempt :: "Matcher \<Rightarrow> int \<Rightarrow> bool mres" where
  "attempt m start =
     (let m1 = m\<lparr>m_startPos := start, m_pos := start,
                 m_saved := replicate (length (m_saved m)) (-1), m_steps := 0\<rparr> in
      if \<not> inRange (m_saved m1) 0 then Inl PanicIndex
      else
        (case execute (m1\<lparr>m_saved := (m_saved m1)[0 := start]\<rparr>) 0 of
           Inl e \<Rightarrow> Inl e
         | Inr (False, m2) \<Rightarrow> Inr (False, m2)
         | Inr (True, m2) \<Rightarrow>
             if \<not> inRange (m_saved m2) 1 then Inl PanicIndex
             else Inr (True, m2\<lparr>m_saved := (m_saved m2)[1 := m_pos m2]\<rparr>)))"

function MatchFrom :: "Matcher \<Rightarrow> int \<Rightarrow> bool mres" where
  "MatchFrom m start =
     (if start \<le> int (length (m_input m)) then
        (case attempt m start of
           Inl e \<Rightarrow> Inl e
         | Inr (True, m1) \<Rightarrow> Inr (True, m1)
         | Inr (False, m1) \<Rightarrow> MatchFrom m1 (start + 1))
      else Inr (False, m))"
  by pat_completeness auto
termination
proof -
  have cont: "m_input m2 = m_input m1"
    if "step m1 instr stack = Continue m2 pc2 stack2" for m1 instr stack m2 pc2 stack2
    using that
    by (cases "Op instr")
       (auto simp: step_def backtrack_def Let_def
             split: if_splits list.splits sum.splits option.splits bool.splits)
  have halt: "m_input m2 = m_input m1"
    if "step m1 instr stack = Halt (Inr (b, m2))" for m1 instr stack b m2
    using that
    by (cases "Op instr")
       (auto simp: step_def backtrack_def Let_def
             split: if_splits list.splits sum.splits option.splits bool.splits)
  have loop: "m_input m' = m_input m"
    if "executeLoop m pc stack = Inr (b, m')" for m pc stack b m'
    using that
  proof (induction m pc stack rule: executeLoop.induct)
    case (1 m pc stack)
    show ?case
      using "1.prems" "1.IH"
      by (subst (asm) executeLoop.simps)
         (auto simp: Let_def split: if_splits vmstep.splits dest: cont halt)
  qed
  have att: "m_input m' = m_input m" if "attempt m start = Inr (b, m')" for m start b m'
    using that
    by (auto simp: attempt_def execute_def Let_def
             split: if_splits sum.splits bool.splits dest!: loop)
  show ?thesis
    by (relation "measure (\<lambda>(m, start). nat (int (length (m_input m)) + 1 - start))")
       (auto dest!: att att[OF sym])
qed

declare MatchFrom.simps [simp del]

definition Match :: "Matcher \<Rightarrow> bool mres" where
  "Match m =
     MatchFrom
       (if list_ex (\<lambda>instr. Op instr = InstrBeginLine \<or> Op instr = InstrEndLine)
             (prog_instrs (m_prog m))
        then m\<lparr>m_multiline := True\<rparr> else m)
       0"

definition MatchStart :: "Matcher \<Rightarrow> int \<Rightarrow> bool mres" where
  "MatchStart m start =
     (if start < 0 \<or> start > int (length (m_input m)) then Inr (False, m)
      else attempt m start)"

text \<open>
  \<open>Captures\<close>: one pair of positions per group.  The Go loop reads \<open>m.saved[i*2+1]\<close>
  for every \<open>i < (len(m.saved)+1)/2\<close>, which panics when the number of slots is odd.
\<close>

definition Captures :: "Matcher \<Rightarrow> error + (int \<times> int) list" where
  "Captures m =
     (if odd (length (m_saved m)) then Inl PanicIndex
      else Inr (map (\<lambda>i. let start = m_saved m ! (i * 2); end = m_saved m ! (i * 2 + 1) in
                          if start \<ge> 0 \<and> end \<ge> 0 then (start, end) else (-1, -1))
                  [0..<(length (m_saved m) + 1) div 2]))"

text \<open>
  \<open>CaptureTexts\<close>: \<open>m.input[cap[0]:cap[1]]\<close> panics when the bounds are not in order
  (no position exceeds \<open>len(m.input)\<close>, so the upper bound is tested against it).
\<close>

fun captureTexts :: "rune list \<Rightarrow> (int \<times> int) list \<Rightarrow> error + rune list list" where
  "captureTexts inp [] = Inr []"
| "captureTexts inp ((a, b) # caps) =
     (if a \<ge> 0 \<and> b \<ge> 0 then
        (if a > b \<or> b > int (length inp) then Inl PanicIndex
         else (case captureTexts inp caps of
                 Inl e \<Rightarrow> Inl e
               | Inr texts \<Rightarrow> Inr (slice inp (nat a) (nat b) # texts)))
      else (case captureTexts inp caps of
              Inl e \<Rightarrow> Inl e
            | Inr texts \<Rightarrow> Inr ([] # texts)))"

definition CaptureTexts :: "Matcher \<Rightarrow> error + rune list list" where
  "CaptureTexts m =
     (case Captures m of Inl e \<Rightarrow> Inl e | Inr caps \<Rightarrow> captureTexts (m_input m) caps)"

definition matchString :: "program \<Rightarrow> rune list \<Rightarrow> error + bool" where
  "matchString prog s =
     (case Match (newMatcher prog s) of Inl e \<Rightarrow> Inl e | Inr (b, m) \<Rightarrow> Inr b)"

text \<open>
  \<open>findStringSubmatch\<close> tries every start position with a fresh matcher; \<open>None\<close> is
  the nil slice it returns when none matches.
\<close>

function findStringSubmatchFrom :: "program \<Rightarrow> rune list \<Rightarrow> int \<Rightarrow> error + rune list list option" where
  "findStringSubmatchFrom prog inp start =
     (if start \<le> int (length inp) then
        (case MatchStart (newMatcher prog inp) start of
           Inl e \<Rightarrow> Inl e
         | Inr (True, m) \<Rightarrow>
             (case CaptureTexts m of Inl e \<Rightarrow> Inl e | Inr texts \<Rightarrow> Inr (Some texts))
         | Inr (False, m) \<Rightarrow> findStringSubmatchFrom prog inp (start + 1))
      else Inr None)"
  by pat_completeness auto
termination
  by (relation "measure (\<lambda>(prog, inp, start). nat (int (length inp) + 1 - start))") auto

declare findStringSubmatchFrom.simps [simp del]

definition findStringSubmatch :: "program \<Rightarrow> rune list \<Rightarrow> error + rune list list option" where
  "findStringSubmatch prog s = findStringSubmatchFrom prog s 0"

text \<open>
  \<open>runeSliceIndex\<close>: the byte offset of the rune with the given index, which is the
  number of bytes that the runes before it take in UTF-8.
\<close>

definition utf8Len :: "rune \<Rightarrow> int" where
  "utf8Len r = (if r < 0x80 then 1 else if r < 0x800 then 2 else if r < 0x10000 then 3 else 4)"

definition runeSliceIndex :: "rune list \<Rightarrow> int \<Rightarrow> int" where
  "runeSliceIndex s runeIdx =
     (if runeIdx \<le> 0 then 0 else sum_list (map utf8Len (take (nat runeIdx) s)))"

function findStringIndexFrom :: "program \<Rightarrow> rune list \<Rightarrow> int \<Rightarrow> error + (int \<times> int) option" where
  "findStringIndexFrom prog inp start =
     (if start \<le> int (length inp) then
        (case MatchStart (newMatcher prog inp) start of
           Inl e \<Rightarrow> Inl e
         | Inr (True, m) \<Rightarrow>
             (case Captures m of
                Inl e \<Rightarrow> Inl e
              | Inr caps \<Rightarrow>
                  if length caps > 0 \<and> fst (hd caps) \<ge> 0 \<and> snd (hd caps) \<ge> 0 then
                    Inr (Some (runeSliceIndex inp (fst (hd caps)),
                               runeSliceIndex inp (snd (hd caps))))
                  else findStringIndexFrom prog inp (start + 1))
         | Inr (False, m) \<Rightarrow> findStringIndexFrom prog inp (start + 1))
      else Inr None)"
  by pat_completeness auto
termination
  by (relation "measure (\<lambda>(prog, inp, start). nat (int (length inp) + 1 - start))") auto

declare findStringIndexFrom.simps [simp del]

definition findStringIndex :: "program \<Rightarrow> rune list \<Rightarrow> error + (int \<times> int) option" where
  "findStringIndex prog s = findStringIndexFrom prog s 0"

section \<open>regexp.go\<close>

record Regexp =
  re_expr :: "rune list"
  re_prog :: program
  re_numSubexp :: int
  re_subexpNames :: "rune list list"

text \<open>
  \<open>CompileWithFlags\<close>: \<open>None\<close> if the parser does not return, else the error or the
  compiled expression.
\<close>

definition CompileWithFlags :: "rune list \<Rightarrow> Flags \<Rightarrow> (error + Regexp) option" where
  "CompileWithFlags expr flags =
     (let parser = (newParser expr)\<lparr>p_flags :=
            \<lparr>rf_caseInsensitive = CaseInsensitive flags, rf_multiline = Multiline flags,
             rf_dotMatchesNL = DotMatchesNL flags, rf_ungreedy = Ungreedy flags\<rparr>\<rparr> in
      do { (res, parsedFlags) \<leftarrow> Parse parser;
           Some (case res of
                   Inl e \<Rightarrow> Inl e
                 | Inr ast \<Rightarrow>
                     (let mergedFlags =
                            \<lparr>CaseInsensitive = (CaseInsensitive flags \<or> rf_caseInsensitive parsedFlags),
                             Multiline = (Multiline flags \<or> rf_multiline parsedFlags),
                             DotMatchesNL = (DotMatchesNL flags \<or> rf_dotMatchesNL parsedFlags),
                             Ungreedy = (Ungreedy flags \<or> rf_ungreedy parsedFlags)\<rparr> in
                      case compile ast (newCompiler\<lparr>c_flags := mergedFlags\<rparr>) of
                        Inl e \<Rightarrow> Inl e
                      | Inr (prog, compiler) \<Rightarrow>
                          Inr \<lparr>re_expr = expr, re_prog = prog,
                               re_numSubexp = c_numCaptures compiler,
                               re_subexpNames = c_subexpNames compiler\<rparr>)) })"

definition Compile :: "rune list \<Rightarrow> (error + Regexp) option" where
  "Compile expr =
     CompileWithFlags expr
       \<lparr>CaseInsensitive = False, Multiline = False, DotMatchesNL = False, Ungreedy = False\<rparr>"

definition isQuoteSpecial :: "rune \<Rightarrow> bool" where
  "isQuoteSpecial c =
     (c = ru CHR ''.'' \<or> c = ru CHR ''$'' \<or> c = ru CHR ''^'' \<or> c = ru CHR ''{''
      \<or> c = ru CHR ''['' \<or> c = ru CHR ''('' \<or> c = ru CHR ''|'' \<or> c = ru CHR '')''
      \<or> c = ru CHR ''*'' \<or> c = ru CHR ''+'' \<or> c = ru CHR ''?'' \<or> c = ru CHR 0x5C)"

definition Quote :: "rune list \<Rightarrow> rune list" where
  "Quote s =
     (if \<not> list_ex isQuoteSpecial s then s
      else concat (map (\<lambda>c. if isQuoteSpecial c then [ru CHR 0x5C, c] else [c]) s))"

definition MatchString :: "Regexp \<Rightarrow> rune list \<Rightarrow> error + bool" where
  "MatchString re s = matchString (re_prog re) s"

definition FindStringSubmatch :: "Regexp \<Rightarrow> rune list \<Rightarrow> error + rune list list option" where
  "FindStringSubmatch re s = findStringSubmatch (re_prog re) s"

definition FindStringIndex :: "Regexp \<Rightarrow> rune list \<Rightarrow> error + (int \<times> int) option" where
  "FindStringIndex re s = findStringIndex (re_prog re) s"


section \<open>Groups declared so far\<close>

text \<open>
  What the parser knows of the groups it has opened: their number, \<open>p.captures\<close>, and
  the numbers of the named ones, \<open>p.capNames\<close>.
\<close>

type_synonym decls = "int \<times> (rune list \<rightharpoonup> int)"

definition declared :: "Parser \<Rightarrow> decls" where
  "declared p = (p_captures p, p_capNames p)"





section \<open>Two programs used below\<close>

text \<open>
  \<open>loopProg\<close> is what \<open>(?:)*\<close> compiles to: the \<open>Split\<close> enters an empty body whose
  \<open>Jump\<close>s lead back to the \<open>Split\<close>, so the VM goes round without reading input and
  without failing.  \<open>caretProg\<close> is what \<open>^a\<close> compiles to.
\<close>

definition loopProg :: "Instr list" where
  "loopProg =
     [zeroInstr\<lparr>Op := InstrSplit, Next := 1, Arg := 3, Greedy := True\<rparr>,
      zeroInstr\<lparr>Op := InstrJump, Next := 2\<rparr>,
      zeroInstr\<lparr>Op := InstrJump, Next := 0\<rparr>,
      zeroInstr\<lparr>Op := InstrMatch\<rparr>]"

definition caretProg :: program where
  "caretProg =
     \<lparr>prog_instrs =
        [zeroInstr\<lparr>Op := InstrBeginLine, Next := 1\<rparr>,
         zeroInstr\<lparr>Op := InstrChar, Char_r := ru CHR ''a'', Next := 2\<rparr>,
         zeroInstr\<lparr>Op := InstrMatch\<rparr>],
      prog_numCaptures = 0,
      prog_subexpNames = []\<rparr>"

section \<open>The claims\<close>

subsection \<open>Scenarios run on the code\<close>

text \<open>
  C1.  Claim: matching \<open>a(b+)c\<close> against \<open>abbbc\<close> succeeds with whole match \<open>abbbc\<close>
  and group 1 equal to \<open>bbb\<close>.  On the code the match succeeds with whole match
  \<open>abbbc\<close>, but the \<open>Split\<close> that \<open>compilePlus\<close> emits skips to
  \<open>len(c.instrs) + 2\<close>, one instruction past the \<open>Save\<close> that ends the group: slot 3 is
  never written, the slots are \<open>[0, 5, 1, -1]\<close>, and the reported text of group 1 is
  empty.
\<close>

theorem c1_group_end_slot_never_saved:
  "(case Compile (runes ''a(b+)c'') of
      Some (Inr re) \<Rightarrow>
        FindStringSubmatch re (runes ''abbbc'') = Inr (Some [runes ''abbbc'', []])
        \<and> (case MatchStart (newMatcher (re_prog re) (runes ''abbbc'')) 0 of
             Inr (True, m) \<Rightarrow> m_saved m = [0, 5, 1, -1]
           | _ \<Rightarrow> False)
        \<and> map Op (prog_instrs (re_prog re)) =
            [InstrChar, InstrSave, InstrChar, InstrSplit, InstrSave, InstrChar, InstrMatch]
        \<and> Arg (prog_instrs (re_prog re) ! 3) = 5
    | _ \<Rightarrow> False)"
  by code_simp

text \<open>
  C2.  Claim: \<open>a++b\<close> matches \<open>aaab\<close> and \<open>aaabc\<close>, and \<open>a+b\<close> matches \<open>aaabc\<close> at the
  same positions as \<open>a++b\<close>.  On the code all three match, but at different positions:
  \<open>a++b\<close> is found at bytes 2 to 4 (the text \<open>ab\<close>) and \<open>a+b\<close> at bytes 0 to 1 (the
  text \<open>a\<close>).  The \<open>ConcatNode\<close> case patches \<open>Next\<close> of the last instruction of
  the quantified child, which is the loop's own \<open>Jump\<close> or \<open>Split\<close>, so the edge back to
  the body is lost in both programs.
\<close>

theorem c2_plus_and_possessive_plus_positions_differ:
  "(case (Compile (runes ''a++b''), Compile (runes ''a+b'')) of
      (Some (Inr poss), Some (Inr greedy)) \<Rightarrow>
        MatchString poss (runes ''aaab'') = Inr True
        \<and> MatchString poss (runes ''aaabc'') = Inr True
        \<and> MatchString greedy (runes ''aaabc'') = Inr True
        \<and> FindStringIndex poss (runes ''aaabc'') = Inr (Some (2, 4))
        \<and> FindStringIndex greedy (runes ''aaabc'') = Inr (Some (0, 1))
    | _ \<Rightarrow> False)"
  by code_simp

text \<open>
  C3.  Claim: for \<open>Alt(L,R)\<close> the compiler emits \<open>Split\<close> (greedy, primary to L), the
  code of L, a \<open>Jump\<close> to the end, the code of R, and both tails reach the instruction
  after R.  On the code the \<open>Split\<close> is emitted last, after R, with \<open>Greedy\<close> left
  false, and the \<open>Jump\<close> is patched to the position of that \<open>Split\<close>.  As the root's
  code then starts at a position other than 0, \<open>compile\<close> renumbers and cuts the program:
  for \<open>a|b\<close> what is left is \<open>Char a; Jump 0\<close>, which has no \<open>Match\<close> and matches
  neither \<open>a\<close> nor \<open>b\<close>.
\<close>

theorem c3_alt_emits_split_last:
  "compileNode (AltNode (CharNode (ru CHR ''a'')) (CharNode (ru CHR ''b''))) newCompiler =
     Inr (3, newCompiler\<lparr>c_instrs :=
       [zeroInstr\<lparr>Op := InstrChar, Char_r := ru CHR ''a'', Next := 1\<rparr>,
        zeroInstr\<lparr>Op := InstrJump, Next := 3\<rparr>,
        zeroInstr\<lparr>Op := InstrChar, Char_r := ru CHR ''b'', Next := 3\<rparr>,
        zeroInstr\<lparr>Op := InstrSplit, Next := 0, Arg := 2, Greedy := False\<rparr>]\<rparr>)
   \<and> (case Compile (runes ''a|b'') of
        Some (Inr re) \<Rightarrow>
          prog_instrs (re_prog re) =
            [zeroInstr\<lparr>Op := InstrChar, Char_r := ru CHR ''a'', Next := 1\<rparr>,
             zeroInstr\<lparr>Op := InstrJump, Next := 0\<rparr>]
          \<and> MatchString re (runes ''a'') = Inr False
          \<and> MatchString re (runes ''b'') = Inr False
      | _ \<Rightarrow> False)"
  by code_simp

text \<open>
  C4.  Claim: with the case-insensitive flag on, a literal is emitted case-folded and the
  VM compares it case-insensitively, so \<open>(?i)a\<close> matches \<open>A\<close>.  On the code the literal
  is emitted folded, but \<open>newMatcher\<close> turns the matcher's \<open>caseInsensitive\<close> on only
  when the program holds a \<open>CharClass\<close> instruction compiled case-insensitively; a
  program of literals is compared exactly.  \<open>(?i)a\<close> does not match \<open>A\<close>, neither does
  \<open>a\<close> compiled with the \<open>CaseInsensitive\<close> flag, and \<open>(?i)A\<close>, folded to \<open>a\<close>,
  does not match \<open>A\<close> either.
\<close>

theorem c4_case_insensitive_literal_compared_exactly:
  "(case (Compile (runes ''(?i)a''),
          CompileWithFlags (runes ''a'')
            \<lparr>CaseInsensitive = True, Multiline = False, DotMatchesNL = False, Ungreedy = False\<rparr>,
          Compile (runes ''(?i)A'')) of
      (Some (Inr re1), Some (Inr re2), Some (Inr re3)) \<Rightarrow>
        MatchString re1 (runes ''A'') = Inr False
        \<and> MatchString re1 (runes ''a'') = Inr True
        \<and> MatchString re2 (runes ''A'') = Inr False
        \<and> MatchString re3 (runes ''A'') = Inr False
        \<and> map Char_r (prog_instrs (re_prog re3)) = [0, ru CHR ''a'', 0]
        \<and> m_caseInsensitive (newMatcher (re_prog re1) (runes ''A'')) = False
    | _ \<Rightarrow> False)"
  by code_simp

text \<open>
  C5.  Claim: \<open>(?i:a)(?-i:b)\<close> matches \<open>Ab\<close> and does not match \<open>AB\<close>.  On the code
  the pattern does not compile: after \<open>(?\<close>, \<open>parseGroup\<close> accepts \<open>:\<close>, \<open>P\<close> and the
  four flag letters, and rejects \<open>-\<close> as an unknown group prefix, although
  \<open>parseModifiers\<close> reads a \<open>-\<close> list.
\<close>

theorem c5_minus_flag_group_is_rejected:
  "Compile (runes ''(?i:a)(?-i:b)'') = Some (Inl (ErrUnknownGroup (ru CHR ''-'')))"
  by code_simp

text \<open>
  C6.  Claim: after every successful match \<open>caps[0] \<le> caps[1]\<close>, every group with both
  slots set has \<open>caps[2i] \<le> caps[2i+1]\<close> inside the whole match, and a group not
  traversed has both slots \<open>-1\<close>.  On the code \<open>(?:(a?)x)*\<close> matches \<open>axx\<close> with the
  slots \<open>[0, 3, 2, 1]\<close>: group 1 has both slots set and begins after it ends.  The
  \<open>Split\<close> of \<open>compileQuest\<close> skips to \<open>len(c.instrs) + 1\<close>, past the \<open>Save\<close> that
  ends the group, so the second round of the loop moves the begin slot and leaves the
  end slot of the first round.  \<open>CaptureTexts\<close> then panics on the slice \<open>[2:1]\<close>.
\<close>

theorem c6_group_begins_after_its_end:
  "(case Compile (runes ''(?:(a?)x)*'') of
      Some (Inr re) \<Rightarrow>
        (case Match (newMatcher (re_prog re) (runes ''axx'')) of
           Inr (True, m) \<Rightarrow> m_saved m = [0, 3, 2, 1] \<and> CaptureTexts m = Inl PanicIndex
         | _ \<Rightarrow> False)
    | _ \<Rightarrow> False)"
  by code_simp

text \<open>
  C8.  Claim: for every string \<open>t\<close>, \<open>Quote(t)\<close> compiles and matches exactly the
  occurrences of \<open>t\<close>.  On the code \<open>Quote\<close> leaves \<open>}\<close> as it is, and \<open>parseAtom\<close>
  rejects a \<open>}\<close> that no quantifier opened: \<open>Quote("}")\<close> does not compile.
\<close>

theorem c8_quote_leaves_closing_brace:
  "Quote (runes ''}'') = runes ''}''
   \<and> Compile (Quote (runes ''}'')) = Some (Inl (ErrUnexpectedChar (ru CHR ''}'')))"
  by code_simp

subsection \<open>Facts about the parser's cursor\<close>








subsection \<open>Facts about the VM\<close>

lemma executeLoop_cap:
  "m_steps m + 1 > m_maxSteps m \<Longrightarrow>
   executeLoop m pc stack = Inr (False, m\<lparr>m_steps := m_steps m + 1\<rparr>)"
  by (subst executeLoop.simps) (simp add: Let_def)

lemma step_backref_unset:
  assumes op: "Op instr = InstrBackref"
    and arg: "0 \<le> Arg instr"
    and ev: "even (length (m_saved m))"
    and unset: "Arg instr * 2 \<ge> int (length (m_saved m))
                \<or> m_saved m ! nat (Arg instr * 2) < 0
                \<or> m_saved m ! nat (Arg instr * 2 + 1) < 0"
  shows "step m instr stack = backtrack m stack"
proof (cases "Arg instr * 2 \<ge> int (length (m_saved m))")
  case True
  then show ?thesis by (simp add: step_def op Let_def)
next
  case False
  have "even (Arg instr * 2)" by simp
  with False ev arg have "Arg instr * 2 + 1 < int (length (m_saved m))"
    by presburger
  with arg have rng: "inRange (m_saved m) (Arg instr * 2 + 1)"
    by (simp add: inRange_def)
  from False arg unset rng show ?thesis
    by (auto simp: step_def op Let_def)
qed

lemma step_beginline:
  assumes "Op instr = InstrBeginLine" "m_multiline m" "m_pos m = m_startPos m"
    "m_pos m \<le> int (length (m_input m))"
  shows "step m instr stack = Continue m (Next instr) stack"
  using assms by (auto simp: step_def inRange_def)

lemma newMatcher_multiline:
  "m_multiline (newMatcher prog inp) =
     (\<exists>instr \<in> set (prog_instrs prog). Op instr = InstrBeginLine \<or> Op instr = InstrEndLine)"
  by (simp add: newMatcher_def list_ex_iff)

lemma newMatcher_slots_even: "even (length (m_saved (newMatcher prog inp)))"
proof -
  let ?k = "(prog_numCaptures prog + 1) * 2"
  have "even ?k" by simp
  then have "even (nat ?k)" by (cases "0 \<le> ?k") (simp_all add: even_nat_iff)
  then show ?thesis by (simp add: newMatcher_def)
qed

text \<open>
  On \<open>loopProg\<close> the loop of \<open>execute\<close> leaves only through the step counter, with
  \<open>m.steps = m.maxSteps + 1\<close> and the answer false.
\<close>

lemma loop_runs_out:
  "prog_instrs (m_prog m) = loopProg \<Longrightarrow> pc = 0 \<or> pc = 1 \<or> pc = 2 \<Longrightarrow>
   m_steps m \<le> m_maxSteps m \<Longrightarrow>
   \<exists>m'. executeLoop m pc stack = Inr (False, m') \<and> m_steps m' = m_maxSteps m + 1
        \<and> m_prog m' = m_prog m \<and> m_input m' = m_input m \<and> m_maxSteps m' = m_maxSteps m
        \<and> length (m_saved m') = length (m_saved m)"
proof (induction m pc stack rule: executeLoop.induct)
  case (1 m pc stack)
  let ?m1 = "m\<lparr>m_steps := m_steps m + 1\<rparr>"
  show ?case
  proof (cases "m_steps ?m1 > m_maxSteps ?m1")
    case True
    with "1.prems" show ?thesis
      by (subst executeLoop.simps) (simp add: Let_def)
  next
    case False
    have len: "\<not> pc \<ge> int (length (prog_instrs (m_prog ?m1)))" "\<not> pc < 0"
      using "1.prems" by (auto simp: loopProg_def)
    obtain m2 pc2 stack2 where
      st: "step ?m1 (prog_instrs (m_prog ?m1) ! nat pc) stack = Continue m2 pc2 stack2"
      and pc2: "pc2 = 0 \<or> pc2 = 1 \<or> pc2 = 2"
      and m2: "m2 = ?m1"
      using "1.prems"(1,2)
      by (auto simp: loopProg_def step_def zeroInstr_def Let_def)
    from "1.IH"[OF refl False len st] pc2 m2 "1.prems" False
    obtain m' where "executeLoop m2 pc2 stack2 = Inr (False, m')"
      "m_steps m' = m_maxSteps m + 1" "m_prog m' = m_prog m" "m_input m' = m_input m"
      "m_maxSteps m' = m_maxSteps m" "length (m_saved m') = length (m_saved m)"
      by auto
    with False len st show ?thesis
      by (subst executeLoop.simps) (simp add: Let_def)
  qed
qed

lemma loop_attempt:
  assumes "prog_instrs (m_prog m) = loopProg" "0 \<le> m_maxSteps m" "length (m_saved m) > 0"
  shows "\<exists>m'. attempt m start = Inr (False, m') \<and> m_steps m' = m_maxSteps m + 1
        \<and> m_prog m' = m_prog m \<and> m_input m' = m_input m \<and> m_maxSteps m' = m_maxSteps m
        \<and> length (m_saved m') = length (m_saved m)"
proof -
  let ?m1 = "m\<lparr>m_startPos := start, m_pos := start, m_steps := 0,
                 m_saved := (replicate (length (m_saved m)) (-1))[0 := start]\<rparr>"
  from loop_runs_out[of ?m1 0 "[]"] assms
  obtain m' where "executeLoop ?m1 0 [] = Inr (False, m')" "m_steps m' = m_maxSteps m + 1"
    "m_prog m' = m_prog m" "m_input m' = m_input m" "m_maxSteps m' = m_maxSteps m"
    "length (m_saved m') = length (m_saved m)"
    by auto
  with assms show ?thesis
    by (simp add: attempt_def execute_def Let_def inRange_def)
qed

lemma loop_MatchFrom:
  "prog_instrs (m_prog m) = loopProg \<Longrightarrow> 0 \<le> m_maxSteps m \<Longrightarrow> length (m_saved m) > 0 \<Longrightarrow>
   \<exists>m'. MatchFrom m start = Inr (False, m')"
proof (induction m start rule: MatchFrom.induct)
  case (1 m start)
  show ?case
  proof (cases "start \<le> int (length (m_input m))")
    case False
    then show ?thesis by (subst MatchFrom.simps) simp
  next
    case True
    from loop_attempt[OF "1.prems", of start]
    obtain m1 where a: "attempt m start = Inr (False, m1)" "m_prog m1 = m_prog m"
      "m_maxSteps m1 = m_maxSteps m" "length (m_saved m1) = length (m_saved m)"
      by auto
    from "1.IH"[OF True a(1) refl refl] a "1.prems"
    obtain m' where "MatchFrom m1 (start + 1) = Inr (False, m')" by auto
    with True a show ?thesis by (subst MatchFrom.simps) simp
  qed
qed

lemma loop_matchString:
  assumes a: "prog_instrs prog = loopProg" "prog_numCaptures prog = 0"
  shows "matchString prog s = Inr False"
proof -
  let ?m = "newMatcher prog s"
  have nol: "\<not> list_ex (\<lambda>instr. Op instr = InstrBeginLine \<or> Op instr = InstrEndLine)
                 (prog_instrs prog)"
    by (simp add: a loopProg_def zeroInstr_def)
  have mp: "m_prog ?m = prog" by (simp add: newMatcher_def)
  have "\<exists>m'. MatchFrom ?m 0 = Inr (False, m')"
    by (rule loop_MatchFrom) (simp_all add: newMatcher_def a)
  then show ?thesis
    using nol mp by (auto simp: matchString_def Match_def)
qed

lemma loop_MatchStart:
  assumes a: "prog_instrs prog = loopProg" "prog_numCaptures prog = 0"
  shows "\<exists>mf. MatchStart (newMatcher prog s) 0 = Inr (False, mf) \<and> m_steps mf = 1000001"
proof -
  from loop_attempt[of "newMatcher prog s" 0]
  obtain mf where "attempt (newMatcher prog s) 0 = Inr (False, mf)"
    "m_steps mf = m_maxSteps (newMatcher prog s) + 1"
    by (auto simp: newMatcher_def a)
  then show ?thesis by (simp add: MatchStart_def newMatcher_def)
qed

lemma compile_loop:
  "(case Compile (runes ''(?:)*'') of
      Some (Inr re) \<Rightarrow> prog_instrs (re_prog re) = loopProg \<and> prog_numCaptures (re_prog re) = 0
    | _ \<Rightarrow> False)"
  by code_simp

lemma unset_backref_pattern:
  "(case Compile (runes ''(a){0,2}'' @ [ru CHR 0x5C, ru CHR ''1'']) of
      Some (Inr re) \<Rightarrow>
        map Op (prog_instrs (re_prog re)) =
          [InstrSplit, InstrSave, InstrChar, InstrSave, InstrSplit, InstrSave, InstrChar,
           InstrSave, InstrBackref, InstrMatch]
        \<and> MatchString re (runes ''b'') = Inr False
        \<and> FindStringSubmatch re (runes ''b'') = Inr None
    | _ \<Rightarrow> False)"
  by code_simp

lemma caret_pattern:
  "(case Compile (runes ''^a'') of
      Some (Inr re) \<Rightarrow>
        re_prog re = caretProg
        \<and> FindStringIndex re (runes ''xa'') = Inr (Some (1, 2))
        \<and> MatchString re (runes ''xa'') = Inr True
    | _ \<Rightarrow> False)"
  by code_simp


text \<open>
  The two cases the specification names.  For every matcher \<open>m\<close>, program counter and
  stack: an iteration that finds the step counter above \<open>m.maxSteps\<close> returns false,
  and \<open>newMatcher\<close> sets that cap to 1,000,000; a \<open>Backref\<close> instruction whose group has
  a slot unset (or has no slots at all) goes to the label \<open>Backtrack\<close>, where an empty
  stack makes the attempt return false and a snapshot is resumed otherwise.  The
  program of \<open>(?:)*\<close>, which loops for ever, makes \<open>MatchString\<close> return false on every
  input, the attempt at position 0 stopping at step 1,000,001, and \<open>(a){0,2}\1\<close> on \<open>b\<close>,
  which runs the backreference with group 1 unset, does not match.  The slot array of a
  matcher has \<open>2 * (numCaptures + 1)\<close> entries, an even number.
\<close>

lemma step_cap_and_unset_backref_are_no_match:
  "(m_steps m + 1 > m_maxSteps m \<longrightarrow>
      executeLoop m pc stack = Inr (False, m\<lparr>m_steps := m_steps m + 1\<rparr>))
   \<and> m_maxSteps (newMatcher prog inp) = 1000000
   \<and> even (length (m_saved (newMatcher prog inp)))
   \<and> (Op instr = InstrBackref \<and> 0 \<le> Arg instr \<and> even (length (m_saved vm))
        \<and> (Arg instr * 2 \<ge> int (length (m_saved vm))
            \<or> m_saved vm ! nat (Arg instr * 2) < 0
            \<or> m_saved vm ! nat (Arg instr * 2 + 1) < 0) \<longrightarrow>
      step vm instr bts =
        (case bts of
           [] \<Rightarrow> Halt (Inr (False, vm))
         | bp # rest \<Rightarrow>
             Continue (vm\<lparr>m_pos := bp_pos bp,
                          m_saved := goCopy (m_saved vm) (bp_captures bp)\<rparr>)
               (bp_pc bp) rest))
   \<and> (case Compile (runes ''(?:)*'') of
        Some (Inr re) \<Rightarrow>
          (\<forall>s. MatchString re s = Inr False
               \<and> (\<exists>mf. MatchStart (newMatcher (re_prog re) s) 0 = Inr (False, mf)
                        \<and> m_steps mf = 1000001))
      | _ \<Rightarrow> False)
   \<and> (case Compile (runes ''(a){0,2}'' @ [ru CHR 0x5C, ru CHR ''1'']) of
        Some (Inr re) \<Rightarrow> MatchString re (runes ''b'') = Inr False
      | _ \<Rightarrow> False)"
proof (intro conjI impI)
  assume "m_steps m + 1 > m_maxSteps m"
  then show "executeLoop m pc stack = Inr (False, m\<lparr>m_steps := m_steps m + 1\<rparr>)"
    by (rule executeLoop_cap)
next
  show "m_maxSteps (newMatcher prog inp) = 1000000"
    by (simp add: newMatcher_def)
next
  show "even (length (m_saved (newMatcher prog inp)))"
    by (rule newMatcher_slots_even)
next
  assume "Op instr = InstrBackref \<and> 0 \<le> Arg instr \<and> even (length (m_saved vm))
        \<and> (Arg instr * 2 \<ge> int (length (m_saved vm))
            \<or> m_saved vm ! nat (Arg instr * 2) < 0
            \<or> m_saved vm ! nat (Arg instr * 2 + 1) < 0)"
  then have "step vm instr bts = backtrack vm bts"
    by (intro step_backref_unset) simp_all
  then show "step vm instr bts =
        (case bts of
           [] \<Rightarrow> Halt (Inr (False, vm))
         | bp # rest \<Rightarrow>
             Continue (vm\<lparr>m_pos := bp_pos bp,
                          m_saved := goCopy (m_saved vm) (bp_captures bp)\<rparr>)
               (bp_pc bp) rest)"
    by (simp add: backtrack_def)
next
  show "case Compile (runes ''(?:)*'') of
        Some (Inr re) \<Rightarrow>
          (\<forall>s. MatchString re s = Inr False
               \<and> (\<exists>mf. MatchStart (newMatcher (re_prog re) s) 0 = Inr (False, mf)
                        \<and> m_steps mf = 1000001))
      | _ \<Rightarrow> False"
    using compile_loop
    by (auto split: option.splits sum.splits
             simp: MatchString_def loop_matchString loop_MatchStart)
next
  show "case Compile (runes ''(a){0,2}'' @ [ru CHR 0x5C, ru CHR ''1'']) of
        Some (Inr re) \<Rightarrow> MatchString re (runes ''b'') = Inr False
      | _ \<Rightarrow> False"
    using unset_backref_pattern by (auto split: option.splits sum.splits)
qed

subsection \<open>A match that ends in a panic\<close>

text \<open>
  C7.  Matching never returns an error: for every compiled program and input, a step
  counter above the cap, a backreference to an unset slot or any other failed constraint
  is "no match", never an error.

  The Go functions \<open>execute\<close>, \<open>Match\<close> and \<open>MatchString\<close> return a \<open>bool\<close> and no error
  value; in the model \<open>Inr\<close> carries that boolean and \<open>Inl PanicIndex\<close> is Go's run-time
  panic for an index out of range.  The pattern \<open>(?:(a?)x){2}\1\1\1\1b\<close> compiles.  On
  \<open>axx\<close> its group 1 is left with begin slot 2 and end slot 1; \<open>Backref\<close> checks both
  slots for \<open>< 0\<close> only, computes \<open>refLen = -1\<close>, compares nothing and moves the
  position back by one, so that four of them leave it at \<open>-1\<close>; the \<open>Char\<close> instruction
  of the \<open>b\<close> then passes the test \<open>m.pos >= len(m.input)\<close> and reads \<open>m.input[-1]\<close>.
  \<open>MatchString\<close>, \<open>FindStringSubmatch\<close> and \<open>FindStringIndex\<close> all stop with that panic,
  where the same expression on \<open>xx\<close> is an ordinary "no match".  Without the final \<open>b\<close>
  the match succeeds with the position at \<open>-1\<close> and that value in the slot of the end of
  the whole match.
\<close>

theorem c7_match_panics_reading_before_the_input:
  "(case Compile (runes ''(?:(a?)x){2}''
                  @ concat (replicate 4 [ru CHR 0x5C, ru CHR ''1'']) @ runes ''b'') of
      Some (Inr re) \<Rightarrow>
        MatchString re (runes ''axx'') = Inl PanicIndex
        \<and> FindStringSubmatch re (runes ''axx'') = Inl PanicIndex
        \<and> FindStringIndex re (runes ''axx'') = Inl PanicIndex
        \<and> MatchString re (runes ''xx'') = Inr False
    | _ \<Rightarrow> False)
   \<and> (case Compile (runes ''(?:(a?)x){2}''
                     @ concat (replicate 4 [ru CHR 0x5C, ru CHR ''1''])) of
        Some (Inr re) \<Rightarrow>
          (case Match (newMatcher (re_prog re) (runes ''axx'')) of
             Inr (b, m) \<Rightarrow> b \<and> m_pos m = -1 \<and> m_saved m = [0, -1, 2, 1]
           | Inl e \<Rightarrow> False)
      | _ \<Rightarrow> False)"
  by code_simp

subsection \<open>Claims proved of the code\<close>

text \<open>
  C10.  Creating a matcher enables multiline mode whenever the program holds a
  \<open>BeginLine\<close> or \<open>EndLine\<close> instruction, whatever the flags; in that mode the
  \<open>BeginLine\<close> check also succeeds when the position is the attempt's start position, so
  a pattern with \<open>^\<close> can match at a position that is neither the start of the text nor
  after a newline.

  \<open>newMatcher\<close> takes the program and the input only, and the program does not record
  the \<open>m\<close> flag.  The last conjunct is \<open>^a\<close>, compiled with no flag, on \<open>xa\<close>: it is
  found at position 1, after the \<open>x\<close>.
\<close>

theorem c10_begin_line_succeeds_at_attempt_start:
  "m_multiline (newMatcher prog inp) =
     (\<exists>i \<in> set (prog_instrs prog). Op i = InstrBeginLine \<or> Op i = InstrEndLine)
   \<and> (Op instr = InstrBeginLine \<and> m_multiline m \<and> m_pos m = m_startPos m
        \<and> m_pos m \<le> int (length (m_input m)) \<longrightarrow>
      step m instr stack = Continue m (Next instr) stack)
   \<and> (case Compile (runes ''^a'') of
        Some (Inr re) \<Rightarrow>
          re_prog re = caretProg
          \<and> FindStringIndex re (runes ''xa'') = Inr (Some (1, 2))
          \<and> MatchString re (runes ''xa'') = Inr True
      | _ \<Rightarrow> False)"
  using newMatcher_multiline[of prog inp] step_beginline[of instr m stack] caret_pattern
  by blast

text \<open>
  The theorem at the matcher of \<open>^a\<close> on \<open>xa\<close> in the attempt that starts at
  position 1, where the rune before the position is \<open>x\<close>.
\<close>

theorem c10_witness:
  "m_multiline (newMatcher caretProg (runes ''xa''))
   \<and> step ((newMatcher caretProg (runes ''xa''))\<lparr>m_pos := 1, m_startPos := 1\<rparr>)
        (prog_instrs caretProg ! 0) [] =
      Continue ((newMatcher caretProg (runes ''xa''))\<lparr>m_pos := 1, m_startPos := 1\<rparr>) 1 []
   \<and> m_input (newMatcher caretProg (runes ''xa'')) ! 0 = ru CHR ''x''"
  using c10_begin_line_succeeds_at_attempt_start
          [where prog = caretProg and inp = "runes ''xa''"
             and instr = "prog_instrs caretProg ! 0"
             and m = "(newMatcher caretProg (runes ''xa''))\<lparr>m_pos := 1, m_startPos := 1\<rparr>"
             and stack = "[]"]
  by (simp add: newMatcher_def caretProg_def zeroInstr_def runes_def)


subsection \<open>Backreferences after a run of groups\<close>
















subsection \<open>The parser keeps count of the groups\<close>

lemma declared_next [simp]: "declared (snd (next' p)) = declared p"
  by (simp add: next'_def declared_def)


lemma declared_pos [simp]: "declared (p\<lparr>p_pos := n\<rparr>) = declared p"
  by (simp add: declared_def)

lemma declared_flags [simp]: "declared (p\<lparr>p_flags := fl\<rparr>) = declared p"
  by (simp add: declared_def)

lemma declared_skipTo [simp]: "declared (skipTo stop p) = declared p"
  by (induction stop p rule: skipTo.induct) (subst skipTo.simps, simp)

lemma declared_skipDigits [simp]: "declared (skipDigits p) = declared p"
  by (induction p rule: skipDigits.induct) (subst skipDigits.simps, simp)











lemma declared_parts [simp]:
  "fst (declared p) = p_captures p" "snd (declared p) = p_capNames p"
  by (simp_all add: declared_def)

lemma caps_next [simp]:
  "p_captures (snd (next' p)) = p_captures p" "p_capNames (snd (next' p)) = p_capNames p"
  using declared_next[of p] by (simp_all add: declared_def)

lemma caps_skipTo [simp]:
  "p_captures (skipTo stop p) = p_captures p" "p_capNames (skipTo stop p) = p_capNames p"
  using declared_skipTo[of stop p] by (simp_all add: declared_def)










subsection \<open>Backreferences are checked against the groups declared\<close>



end
